theory Spec2Isabelle
  imports Main "HOL-Library.Word" "HOL-Library.Sublist" "HOL-Library.List_Lexorder" "HOL-Library.Char_ord"
begin

unbundle bit_operations_syntax

section \<open>Paths\<close>

text \<open>
  The program handles paths as Go strings and hands them to \<^verbatim>\<open>path/filepath\<close> and
  \<^verbatim>\<open>os\<close>. A path string is read as a list of components. An absolute path starts
  with the component \<open>''/''\<close>; the empty list is the working directory. As
  \<^verbatim>\<open>filepath.Clean\<close> does, empty components and \<open>''.''\<close> are dropped and \<open>''..''\<close>
  removes the component before it (lexically).
\<close>

type_synonym path = "string list"

fun splitSlash :: "string \<Rightarrow> string list" where
  "splitSlash [] = [[]]"
| "splitSlash (c # cs) =
     (if c = CHR ''/'' then [] # splitSlash cs
      else (case splitSlash cs of [] \<Rightarrow> [[c]] | w # ws \<Rightarrow> (c # w) # ws))"

text \<open>The second argument is the stack of components kept so far, innermost first.\<close>

fun cleanComps :: "string list \<Rightarrow> string list \<Rightarrow> path" where
  "cleanComps [] acc = rev acc"
| "cleanComps (c # cs) acc =
     (if c = [] \<or> c = ''.'' then cleanComps cs acc
      else if c = ''..'' then
        (case acc of
           [] \<Rightarrow> cleanComps cs [''..'']
         | a # as \<Rightarrow>
             if a = ''..'' then cleanComps cs (''..'' # acc)
             else if a = ''/'' then cleanComps cs acc
             else cleanComps cs as)
      else cleanComps cs (c # acc))"

definition isAbs :: "string \<Rightarrow> bool" where
  "isAbs s = (case s of [] \<Rightarrow> False | c # _ \<Rightarrow> c = CHR ''/'')"

definition path_of :: "string \<Rightarrow> path" where
  "path_of s = cleanComps (splitSlash s) (if isAbs s then [''/''] else [])"

fun joinSlash :: "string list \<Rightarrow> string" where
  "joinSlash [] = []"
| "joinSlash [c] = c"
| "joinSlash (c # cs) = c @ ''/'' @ joinSlash cs"

text \<open>\<^verbatim>\<open>filepath.Clean\<close>: the shortest equivalent path name, \<open>''.''\<close> for the empty one.\<close>

definition filepath_Clean :: "string \<Rightarrow> string" where
  "filepath_Clean s =
     (case path_of s of
        [] \<Rightarrow> ''.''
      | c # cs \<Rightarrow> if c = ''/'' then ''/'' @ joinSlash cs else joinSlash (c # cs))"

text \<open>\<^verbatim>\<open>filepath.Join\<close> of two elements: empty elements are ignored, the result is cleaned,
  and joining only empty elements gives the empty string.\<close>

definition filepath_Join :: "string \<Rightarrow> string \<Rightarrow> string" where
  "filepath_Join a b =
     (if a = [] then (if b = [] then [] else filepath_Clean b)
      else if b = [] then filepath_Clean a
      else filepath_Clean (a @ ''/'' @ b))"

text \<open>\<^verbatim>\<open>strings.HasSuffix\<close>.\<close>

definition strings_HasSuffix :: "string \<Rightarrow> string \<Rightarrow> bool" where
  "strings_HasSuffix s suf = suffix suf s"

section \<open>The file system\<close>

text \<open>
  A file system is a finite table from paths to nodes. Permission bits are the low nine
  bits of Go's \<^verbatim>\<open>FileMode\<close> (a \<^verbatim>\<open>uint32\<close>); owner and group are numeric ids. The working
  directory and the root directory always exist. The model has no access control other
  than the ownership rule of \<^verbatim>\<open>chown\<close>, no quota, and follows a symbolic link only
  when it is the last component of a path.
\<close>

type_synonym FileMode = "32 word"

datatype node =
    Dir FileMode nat nat
  | File string FileMode nat nat
  | Symlink string

datatype errno = ENOENT | ENOTDIR | EISDIR | EEXIST | ELOOP | EINVAL | EPERM | ENOEXEC

datatype error =
    PathError string string errno
  | ErrorString string

record os_state =
  files :: "(path \<times> node) list"
  euid :: nat
  egid :: nat
  umask :: FileMode

text \<open>The permission constants of the program, written in octal in the source:
  \<^verbatim>\<open>0755\<close> is 493, \<^verbatim>\<open>0666\<close> is 438, \<^verbatim>\<open>0777\<close> is 511.\<close>

definition perm_0755 :: FileMode where
  "perm_0755 = 493"

definition perm_0666 :: FileMode where
  "perm_0666 = 438"

definition perm_0777 :: FileMode where
  "perm_0777 = 511"

definition lookup :: "(path \<times> node) list \<Rightarrow> path \<Rightarrow> node option" where
  "lookup fs p = (if p = [] \<or> p = [''/''] then Some (Dir perm_0755 0 0) else map_of fs p)"

fun isDirNode :: "node \<Rightarrow> bool" where
  "isDirNode (Dir _ _ _) = True"
| "isDirNode _ = False"

text \<open>The target of a link found at path \<open>p\<close>, relative to the directory of the link.\<close>

definition linkTarget :: "path \<Rightarrow> string \<Rightarrow> path" where
  "linkTarget p t = (if isAbs t then path_of t else cleanComps (splitSlash t) (rev (butlast p)))"

text \<open>Following the links at the end of a path, at most as many as the fuel allows
  (the kernel gives up with \<^verbatim>\<open>ELOOP\<close>).\<close>

fun follow :: "nat \<Rightarrow> (path \<times> node) list \<Rightarrow> path \<Rightarrow> path option" where
  "follow 0 fs p = None"
| "follow (Suc n) fs p =
     (case lookup fs p of
        Some (Symlink t) \<Rightarrow> follow n fs (linkTarget p t)
      | _ \<Rightarrow> Some p)"

definition maxLinks :: nat where
  "maxLinks = 40"

text \<open>Some proper prefix of the path is there and is not a directory.\<close>

definition blocked :: "(path \<times> node) list \<Rightarrow> path \<Rightarrow> bool" where
  "blocked fs p =
     list_ex (\<lambda>q. q \<noteq> p \<and> (case lookup fs q of None \<Rightarrow> False | Some n \<Rightarrow> \<not> isDirNode n)) (prefixes p)"

definition missing :: "(path \<times> node) list \<Rightarrow> path \<Rightarrow> errno" where
  "missing fs p = (if blocked fs p then ENOTDIR else ENOENT)"

text \<open>\<^verbatim>\<open>os.Lstat\<close> and \<^verbatim>\<open>os.Stat\<close> on a path string; the empty string names nothing.\<close>

definition os_Lstat :: "'a os_state_scheme \<Rightarrow> string \<Rightarrow> error + node" where
  "os_Lstat w s =
     (if s = [] then Inl (PathError ''lstat'' s ENOENT)
      else case lookup (files w) (path_of s) of
             None \<Rightarrow> Inl (PathError ''lstat'' s (missing (files w) (path_of s)))
           | Some n \<Rightarrow> Inr n)"

definition os_Stat :: "'a os_state_scheme \<Rightarrow> string \<Rightarrow> error + node" where
  "os_Stat w s =
     (if s = [] then Inl (PathError ''stat'' s ENOENT)
      else case follow maxLinks (files w) (path_of s) of
             None \<Rightarrow> Inl (PathError ''stat'' s ELOOP)
           | Some q \<Rightarrow>
               (case lookup (files w) q of
                  None \<Rightarrow> Inl (PathError ''stat'' s (missing (files w) q))
                | Some n \<Rightarrow> Inr n))"

text \<open>\<^verbatim>\<open>os.IsNotExist\<close>.\<close>

fun os_IsNotExist :: "error + 'a \<Rightarrow> bool" where
  "os_IsNotExist (Inl (PathError _ _ e)) = (e = ENOENT)"
| "os_IsNotExist _ = False"

subsection \<open>Operations that change the file system\<close>

text \<open>An operation that fails leaves the file system as it was.\<close>

fun put :: "path \<Rightarrow> node \<Rightarrow> (path \<times> node) list \<Rightarrow> (path \<times> node) list" where
  "put k v [] = [(k, v)]"
| "put k v ((k', v') # r) = (if k = k' then (k, v) # r else (k', v') # put k v r)"

text \<open>A new entry needs a directory to go into.\<close>

definition parentCheck :: "(path \<times> node) list \<Rightarrow> path \<Rightarrow> errno option" where
  "parentCheck fs p =
     (case lookup fs (butlast p) of
        None \<Rightarrow> Some (missing fs p)
      | Some n \<Rightarrow> if isDirNode n then None else Some ENOTDIR)"

definition mkdir1 :: "'a os_state_scheme \<Rightarrow> path \<Rightarrow> FileMode \<Rightarrow> errno + 'a os_state_scheme" where
  "mkdir1 w p perm =
     (case lookup (files w) p of
        Some _ \<Rightarrow> Inl EEXIST
      | None \<Rightarrow>
          (case parentCheck (files w) p of
             Some e \<Rightarrow> Inl e
           | None \<Rightarrow> Inr (w\<lparr>files := put p (Dir (perm AND NOT (umask w)) (euid w) (egid w)) (files w)\<rparr>)))"

definition statNode :: "'a os_state_scheme \<Rightarrow> path \<Rightarrow> node option" where
  "statNode w p = (case follow maxLinks (files w) p of None \<Rightarrow> None | Some q \<Rightarrow> lookup (files w) q)"

text \<open>\<^verbatim>\<open>os.MkdirAll\<close> walks down the path: a component that is a directory is kept, one
  that is something else is an error, a missing one is made. A failing call keeps the
  directories it made before the failure.\<close>

fun mkdirAllFrom :: "'a os_state_scheme \<Rightarrow> path \<Rightarrow> string list \<Rightarrow> FileMode \<Rightarrow> errno option \<times> 'a os_state_scheme" where
  "mkdirAllFrom w done [] perm = (None, w)"
| "mkdirAllFrom w done (c # cs) perm =
     (case statNode w (done @ [c]) of
        Some n \<Rightarrow> if isDirNode n then mkdirAllFrom w (done @ [c]) cs perm else (Some ENOTDIR, w)
      | None \<Rightarrow>
          (case mkdir1 w (done @ [c]) perm of
             Inl e \<Rightarrow> (Some e, w)
           | Inr w' \<Rightarrow> mkdirAllFrom w' (done @ [c]) cs perm))"

definition os_MkdirAll :: "'a os_state_scheme \<Rightarrow> string \<Rightarrow> FileMode \<Rightarrow> error option \<times> 'a os_state_scheme" where
  "os_MkdirAll w s perm =
     (if s = [] then (Some (PathError ''mkdir'' s ENOENT), w)
      else case mkdirAllFrom w [] (path_of s) perm of
             (None, w') \<Rightarrow> (None, w')
           | (Some e, w') \<Rightarrow> (Some (PathError ''mkdir'' s e), w'))"

text \<open>\<^verbatim>\<open>os.RemoveAll\<close>: the empty string is accepted and removes nothing; a path whose last
  element is \<open>''.''\<close> is refused; a path that does not exist is no error.\<close>

definition endsWithDot :: "string \<Rightarrow> bool" where
  "endsWithDot s = (s = ''.'' \<or> suffix ''/.'' s)"

definition os_RemoveAll :: "'a os_state_scheme \<Rightarrow> string \<Rightarrow> error option \<times> 'a os_state_scheme" where
  "os_RemoveAll w s =
     (if s = [] then (None, w)
      else if endsWithDot s then (Some (PathError ''RemoveAll'' s EINVAL), w)
      else if blocked (files w) (path_of s) then (Some (PathError ''unlinkat'' s ENOTDIR), w)
      else (None, w\<lparr>files := filter (\<lambda>(q, n). \<not> prefix (path_of s) q) (files w)\<rparr>))"

text \<open>\<^verbatim>\<open>os.Create\<close>: the file is made with mode 0666 before the umask, or emptied when it
  is there. The handle that comes back is the path of the file itself.\<close>

definition os_Create :: "'a os_state_scheme \<Rightarrow> string \<Rightarrow> error + (path \<times> 'a os_state_scheme)" where
  "os_Create w s =
     (if s = [] then Inl (PathError ''open'' s ENOENT)
      else case follow maxLinks (files w) (path_of s) of
             None \<Rightarrow> Inl (PathError ''open'' s ELOOP)
           | Some q \<Rightarrow>
               (case lookup (files w) q of
                  Some (Dir m u g) \<Rightarrow> Inl (PathError ''open'' s EISDIR)
                | Some (Symlink t) \<Rightarrow> Inl (PathError ''open'' s ELOOP)
                | Some (File c m u g) \<Rightarrow> Inr (q, w\<lparr>files := put q (File [] m u g) (files w)\<rparr>)
                | None \<Rightarrow>
                    (case parentCheck (files w) q of
                       Some e \<Rightarrow> Inl (PathError ''open'' s e)
                     | None \<Rightarrow>
                         Inr (q, w\<lparr>files := put q (File [] (perm_0666 AND NOT (umask w)) (euid w) (egid w)) (files w)\<rparr>))))"

text \<open>Writing through a handle appends to the file.\<close>

definition file_Write :: "'a os_state_scheme \<Rightarrow> path \<Rightarrow> string \<Rightarrow> error option \<times> 'a os_state_scheme" where
  "file_Write w q str =
     (case lookup (files w) q of
        Some (File c m u g) \<Rightarrow> (None, w\<lparr>files := put q (File (c @ str) m u g) (files w)\<rparr>)
      | _ \<Rightarrow> (Some (PathError ''write'' (joinSlash q) EINVAL), w))"

text \<open>\<^verbatim>\<open>os.Open\<close> gives a handle on what the path names, a file or a directory; reading
  a directory through its handle fails.\<close>

definition os_Open :: "'a os_state_scheme \<Rightarrow> string \<Rightarrow> error + path" where
  "os_Open w s =
     (if s = [] then Inl (PathError ''open'' s ENOENT)
      else case follow maxLinks (files w) (path_of s) of
             None \<Rightarrow> Inl (PathError ''open'' s ELOOP)
           | Some q \<Rightarrow>
               (case lookup (files w) q of
                  Some (Symlink t) \<Rightarrow> Inl (PathError ''open'' s ELOOP)
                | Some _ \<Rightarrow> Inr q
                | None \<Rightarrow> Inl (PathError ''open'' s (missing (files w) q))))"

definition file_ReadAll :: "'a os_state_scheme \<Rightarrow> path \<Rightarrow> error + string" where
  "file_ReadAll w q =
     (case lookup (files w) q of
        Some (File c m u g) \<Rightarrow> Inr c
      | Some _ \<Rightarrow> Inl (PathError ''read'' (joinSlash q) EISDIR)
      | None \<Rightarrow> Inl (PathError ''read'' (joinSlash q) ENOENT))"

text \<open>\<^verbatim>\<open>os.ReadFile\<close>: what a reader finds under a name.\<close>

definition os_ReadFile :: "'a os_state_scheme \<Rightarrow> string \<Rightarrow> error + string" where
  "os_ReadFile w s = (case os_Open w s of Inl err \<Rightarrow> Inl err | Inr q \<Rightarrow> file_ReadAll w q)"

definition file_Stat :: "'a os_state_scheme \<Rightarrow> path \<Rightarrow> error + node" where
  "file_Stat w q =
     (case lookup (files w) q of
        Some n \<Rightarrow> Inr n
      | None \<Rightarrow> Inl (PathError ''stat'' (joinSlash q) ENOENT))"

text \<open>\<^verbatim>\<open>os.Chmod\<close> follows links, keeps the permission bits of the mode, and is for the
  owner or the superuser.\<close>

definition os_Chmod :: "'a os_state_scheme \<Rightarrow> string \<Rightarrow> FileMode \<Rightarrow> error option \<times> 'a os_state_scheme" where
  "os_Chmod w s mode =
     (if s = [] then (Some (PathError ''chmod'' s ENOENT), w)
      else case follow maxLinks (files w) (path_of s) of
             None \<Rightarrow> (Some (PathError ''chmod'' s ELOOP), w)
           | Some q \<Rightarrow>
               (case lookup (files w) q of
                  Some (File c m u g) \<Rightarrow>
                    if euid w = 0 \<or> euid w = u
                    then (None, w\<lparr>files := put q (File c (mode AND perm_0777) u g) (files w)\<rparr>)
                    else (Some (PathError ''chmod'' s EPERM), w)
                | Some (Dir m u g) \<Rightarrow>
                    if euid w = 0 \<or> euid w = u
                    then (None, w\<lparr>files := put q (Dir (mode AND perm_0777) u g) (files w)\<rparr>)
                    else (Some (PathError ''chmod'' s EPERM), w)
                | Some (Symlink t) \<Rightarrow> (Some (PathError ''chmod'' s ELOOP), w)
                | None \<Rightarrow> (Some (PathError ''chmod'' s (missing (files w) q)), w)))"

text \<open>\<^verbatim>\<open>os.Lchown\<close> does not follow links. Without being the superuser a process can only
  keep the owner of its own file and give it its own group. Links carry no owner here.\<close>

definition mayChown :: "'a os_state_scheme \<Rightarrow> nat \<Rightarrow> nat \<Rightarrow> nat \<Rightarrow> nat \<Rightarrow> bool" where
  "mayChown w u g uid gid = (euid w = 0 \<or> (u = euid w \<and> uid = u \<and> (gid = g \<or> gid = egid w)))"

definition os_Lchown :: "'a os_state_scheme \<Rightarrow> string \<Rightarrow> nat \<Rightarrow> nat \<Rightarrow> error option \<times> 'a os_state_scheme" where
  "os_Lchown w s uid gid =
     (if s = [] then (Some (PathError ''lchown'' s ENOENT), w)
      else case lookup (files w) (path_of s) of
             Some (File c m u g) \<Rightarrow>
               if mayChown w u g uid gid
               then (None, w\<lparr>files := put (path_of s) (File c m uid gid) (files w)\<rparr>)
               else (Some (PathError ''lchown'' s EPERM), w)
           | Some (Dir m u g) \<Rightarrow>
               if mayChown w u g uid gid
               then (None, w\<lparr>files := put (path_of s) (Dir m uid gid) (files w)\<rparr>)
               else (Some (PathError ''lchown'' s EPERM), w)
           | Some (Symlink t) \<Rightarrow> (None, w)
           | None \<Rightarrow> (Some (PathError ''lchown'' s (missing (files w) (path_of s))), w))"

text \<open>\<^verbatim>\<open>os.ReadDir\<close> gives the names in a directory, sorted.\<close>

definition children :: "(path \<times> node) list \<Rightarrow> path \<Rightarrow> string list" where
  "children fs p = sort (remdups (map (\<lambda>(q, n). last q) (filter (\<lambda>(q, n). q \<noteq> [] \<and> butlast q = p) fs)))"

definition os_ReadDir :: "'a os_state_scheme \<Rightarrow> string \<Rightarrow> error + string list" where
  "os_ReadDir w s =
     (if s = [] then Inl (PathError ''open'' s ENOENT)
      else case follow maxLinks (files w) (path_of s) of
             None \<Rightarrow> Inl (PathError ''open'' s ELOOP)
           | Some q \<Rightarrow>
               (case lookup (files w) q of
                  Some (Dir m u g) \<Rightarrow> Inr (children (files w) q)
                | Some _ \<Rightarrow> Inl (PathError ''readdirent'' s ENOTDIR)
                | None \<Rightarrow> Inl (PathError ''open'' s (missing (files w) q))))"

definition os_Readlink :: "'a os_state_scheme \<Rightarrow> string \<Rightarrow> error + string" where
  "os_Readlink w s =
     (if s = [] then Inl (PathError ''readlink'' s ENOENT)
      else case lookup (files w) (path_of s) of
             Some (Symlink t) \<Rightarrow> Inr t
           | Some _ \<Rightarrow> Inl (PathError ''readlink'' s EINVAL)
           | None \<Rightarrow> Inl (PathError ''readlink'' s (missing (files w) (path_of s))))"

definition os_Symlink :: "'a os_state_scheme \<Rightarrow> string \<Rightarrow> string \<Rightarrow> error option \<times> 'a os_state_scheme" where
  "os_Symlink w target s =
     (if s = [] then (Some (PathError ''symlink'' s ENOENT), w)
      else case lookup (files w) (path_of s) of
             Some _ \<Rightarrow> (Some (PathError ''symlink'' s EEXIST), w)
           | None \<Rightarrow>
               (case parentCheck (files w) (path_of s) of
                  Some e \<Rightarrow> (Some (PathError ''symlink'' s e), w)
                | None \<Rightarrow> (None, w\<lparr>files := put (path_of s) (Symlink target) (files w)\<rparr>)))"

subsection \<open>File modes and error texts\<close>

text \<open>The type bits of \<^verbatim>\<open>os.FileMode\<close>: \<^verbatim>\<open>ModeDir\<close> is bit 31, \<^verbatim>\<open>ModeSymlink\<close> bit 27,
  and \<^verbatim>\<open>ModeType\<close> gathers these with the bits of pipes, sockets and devices.\<close>

definition ModeDir :: FileMode where
  "ModeDir = push_bit 31 1"

definition ModeSymlink :: FileMode where
  "ModeSymlink = push_bit 27 1"

definition ModeType :: FileMode where
  "ModeType = ModeDir OR ModeSymlink OR push_bit 25 1 OR push_bit 24 1 OR push_bit 26 1
     OR push_bit 21 1 OR push_bit 19 1"

fun nodeMode :: "node \<Rightarrow> FileMode" where
  "nodeMode (Dir m u g) = ModeDir OR m"
| "nodeMode (File c m u g) = m"
| "nodeMode (Symlink t) = ModeSymlink OR perm_0777"

fun nodeUid :: "node \<Rightarrow> nat" where
  "nodeUid (Dir m u g) = u"
| "nodeUid (File c m u g) = u"
| "nodeUid (Symlink t) = 0"

fun nodeGid :: "node \<Rightarrow> nat" where
  "nodeGid (Dir m u g) = g"
| "nodeGid (File c m u g) = g"
| "nodeGid (Symlink t) = 0"

fun errnoText :: "errno \<Rightarrow> string" where
  "errnoText ENOENT = ''no such file or directory''"
| "errnoText ENOTDIR = ''not a directory''"
| "errnoText EISDIR = ''is a directory''"
| "errnoText EEXIST = ''file exists''"
| "errnoText ELOOP = ''too many levels of symbolic links''"
| "errnoText EINVAL = ''invalid argument''"
| "errnoText EPERM = ''operation not permitted''"
| "errnoText ENOEXEC = ''exec format error''"

text \<open>\<^verbatim>\<open>err.Error()\<close>.\<close>

fun errorText :: "error \<Rightarrow> string" where
  "errorText (PathError op p e) = op @ '' '' @ p @ '': '' @ errnoText e"
| "errorText (ErrorString s) = s"

section \<open>Configuration (readDescriptionFile.go)\<close>

record packageParameter =
  BundleIdentifier :: string
  BundleName :: string
  BundleVersion :: string
  BundleDisplayName :: string
  BundlePackageType :: string
  BundleExecutable :: string
  BundleSignature :: string
  ExecFileName :: string
  ExecFileDirectory :: string
  IconFileName :: string
  IconFileDirectory :: string
  MinimumMacOSVersion :: string
  CFBundleDocumentTypes :: string
  CFBundleShortVersionString :: string
  NSHumanReadableCopyright :: string
  NSMainNibFile :: string
  NSPrincipalClass :: string
  LocalJava :: string
  LocalJavaHome :: string
  LocalExecDirectory :: string

text \<open>The state of a run: the file system and the process, the package variable
  \<^verbatim>\<open>packageInfo\<close>, and the six path variables of directoryManagement.go. The path
  variables are empty strings until \<^verbatim>\<open>CreateDirectoryStructure\<close> sets them.\<close>

record state = os_state +
  packageInfo :: packageParameter
  applicationDirectory :: string
  contentsDir :: string
  macosDir :: string
  resourcesDir :: string
  javaDir :: string
  runtimeDir :: string

definition GetBundleIdentifier :: "state \<Rightarrow> string" where
  "GetBundleIdentifier st = BundleIdentifier (packageInfo st)"

definition GetBundleName :: "state \<Rightarrow> string" where
  "GetBundleName st = BundleName (packageInfo st)"

definition GetBundleVersion :: "state \<Rightarrow> string" where
  "GetBundleVersion st = BundleVersion (packageInfo st)"

definition GetBundleExecutable :: "state \<Rightarrow> string" where
  "GetBundleExecutable st = BundleExecutable (packageInfo st)"

definition GetMinimumMacOSVersion :: "state \<Rightarrow> string" where
  "GetMinimumMacOSVersion st = MinimumMacOSVersion (packageInfo st)"

definition GetIconFileName :: "state \<Rightarrow> string" where
  "GetIconFileName st = IconFileName (packageInfo st)"

definition GetIconFileDirectory :: "state \<Rightarrow> string" where
  "GetIconFileDirectory st = IconFileDirectory (packageInfo st)"

definition GetPackageType :: "state \<Rightarrow> string" where
  "GetPackageType st =
     (if BundlePackageType (packageInfo st) \<noteq> [] then BundlePackageType (packageInfo st)
      else ''APP'')"

definition GetExecutableName :: "state \<Rightarrow> string" where
  "GetExecutableName st = ExecFileName (packageInfo st)"

definition GetExecutableDirectory :: "state \<Rightarrow> string" where
  "GetExecutableDirectory st = ExecFileDirectory (packageInfo st)"

text \<open>\<^verbatim>\<open>strings.ToLower\<close>, on the letters that matter for a comparison with \<open>''true''\<close>:
  no letter outside ASCII has one of t, r, u, e as its lower case.\<close>

definition toLowerChar :: "char \<Rightarrow> char" where
  "toLowerChar c =
     (case map_of (zip ''ABCDEFGHIJKLMNOPQRSTUVWXYZ'' ''abcdefghijklmnopqrstuvwxyz'') c of
        None \<Rightarrow> c
      | Some l \<Rightarrow> l)"

definition strings_ToLower :: "string \<Rightarrow> string" where
  "strings_ToLower s = map toLowerChar s"

definition GetUseLocalJava :: "state \<Rightarrow> bool" where
  "GetUseLocalJava st = (if strings_ToLower (LocalJava (packageInfo st)) = ''true'' then True else False)"

definition GetJavaHomeDirectory :: "state \<Rightarrow> string" where
  "GetJavaHomeDirectory st = LocalJavaHome (packageInfo st)"

definition GetBundleDisplayName :: "state \<Rightarrow> string" where
  "GetBundleDisplayName st = BundleDisplayName (packageInfo st)"

definition GetBundleSignature :: "state \<Rightarrow> string" where
  "GetBundleSignature st = BundleSignature (packageInfo st)"

definition GetCFBundleShortVersionString :: "state \<Rightarrow> string" where
  "GetCFBundleShortVersionString st = CFBundleShortVersionString (packageInfo st)"

definition GetNSHumanReadableCopyright :: "state \<Rightarrow> string" where
  "GetNSHumanReadableCopyright st = NSHumanReadableCopyright (packageInfo st)"

definition GetNSMainNibFile :: "state \<Rightarrow> string" where
  "GetNSMainNibFile st = NSMainNibFile (packageInfo st)"

definition GetNSPrincipalClass :: "state \<Rightarrow> string" where
  "GetNSPrincipalClass st = NSPrincipalClass (packageInfo st)"

definition GetLocalExecDirectory :: "state \<Rightarrow> string" where
  "GetLocalExecDirectory st = LocalExecDirectory (packageInfo st)"

text \<open>\<^verbatim>\<open>ValidateConfiguration\<close>: the three checks use \<^verbatim>\<open>os.IsNotExist\<close>, so an error of
  \<^verbatim>\<open>os.Stat\<close> other than "does not exist" lets the check pass.\<close>

definition ValidateConfiguration :: "state \<Rightarrow> error option" where
  "ValidateConfiguration st =
     (let execFile = GetExecutableName st;
          execDir = (if GetLocalExecDirectory st \<noteq> [] then GetLocalExecDirectory st
                     else GetExecutableDirectory st);
          fullExecPath = filepath_Join execDir execFile
      in if os_IsNotExist (os_Stat st fullExecPath)
         then Some (ErrorString (''executable file not found: '' @ fullExecPath))
         else
           (let iconFile = GetIconFileName st;
                fullIconPath = filepath_Join (GetIconFileDirectory st) iconFile
            in if iconFile \<noteq> [] \<and> os_IsNotExist (os_Stat st fullIconPath)
               then Some (ErrorString (''icon file not found: '' @ fullIconPath))
               else if GetUseLocalJava st \<and> os_IsNotExist (os_Stat st (GetJavaHomeDirectory st))
               then Some (ErrorString (''local Java home directory not found: '' @ GetJavaHomeDirectory st))
               else None))"

section \<open>The bundle directories (directoryManagement.go)\<close>

definition createDir :: "state \<Rightarrow> string \<Rightarrow> error option \<times> state" where
  "createDir st path = os_MkdirAll st path perm_0755"

definition DeleteAll :: "state \<Rightarrow> error option \<times> state" where
  "DeleteAll st = os_RemoveAll st (applicationDirectory st)"

text \<open>The six calls of \<^verbatim>\<open>createDir\<close>, each followed on failure by \<^verbatim>\<open>DeleteAll\<close> (whose own
  result is dropped) and the return of the creation error.\<close>

fun createDirs :: "state \<Rightarrow> string list \<Rightarrow> error option \<times> state" where
  "createDirs st [] = (None, st)"
| "createDirs st (d # ds) =
     (case createDir st d of
        (Some creationError, st') \<Rightarrow> (Some creationError, snd (DeleteAll st'))
      | (None, st') \<Rightarrow> createDirs st' ds)"

definition CreateDirectoryStructure :: "state \<Rightarrow> string \<Rightarrow> error option \<times> state" where
  "CreateDirectoryStructure st applicationRoot =
     (if applicationRoot \<noteq> [] then
        (let st1 = st\<lparr>applicationDirectory := applicationRoot @ ''.app''\<rparr>;
             st2 = st1\<lparr>contentsDir := filepath_Join (applicationDirectory st1) ''Contents''\<rparr>;
             st3 = st2\<lparr>macosDir := filepath_Join (contentsDir st2) ''MacOS''\<rparr>;
             st4 = st3\<lparr>resourcesDir := filepath_Join (contentsDir st3) ''Resources''\<rparr>;
             st5 = st4\<lparr>javaDir := filepath_Join (contentsDir st4) ''Java''\<rparr>;
             st6 = st5\<lparr>runtimeDir := filepath_Join (javaDir st5) ''runtime''\<rparr>
         in createDirs st6 [applicationDirectory st6, contentsDir st6, macosDir st6,
                           resourcesDir st6, javaDir st6, runtimeDir st6])
      else (Some (ErrorString ''Application root directory cannot be empty''), st))"

section \<open>File copying (package fileManagement)\<close>

text \<open>\<^verbatim>\<open>Copy\<close> creates the destination first, then opens the source and copies what it
  reads.\<close>

definition Copy :: "state \<Rightarrow> string \<Rightarrow> string \<Rightarrow> error option \<times> state" where
  "Copy st srcFile dstFile =
     (case os_Create st dstFile of
        Inl err \<Rightarrow> (Some err, st)
      | Inr (out, st1) \<Rightarrow>
          (case os_Open st1 srcFile of
             Inl err \<Rightarrow> (Some err, st1)
           | Inr inp \<Rightarrow>
               (case file_ReadAll st1 inp of
                  Inl err \<Rightarrow> (Some err, st1)
                | Inr bytes \<Rightarrow> file_Write st1 out bytes)))"

definition Exists :: "state \<Rightarrow> string \<Rightarrow> bool" where
  "Exists st filePath = (if os_IsNotExist (os_Stat st filePath) then False else True)"

definition CreateIfNotExists :: "state \<Rightarrow> string \<Rightarrow> FileMode \<Rightarrow> error option \<times> state" where
  "CreateIfNotExists st dir perm =
     (if Exists st dir then (None, st)
      else case os_MkdirAll st dir perm of
             (Some err, st') \<Rightarrow>
               (Some (ErrorString (''failed to create directory: '' @ [CHR 0x27] @ dir @ [CHR 0x27]
                   @ '', error: '' @ [CHR 0x27] @ errorText err @ [CHR 0x27])), st')
           | (None, st') \<Rightarrow> (None, st'))"

definition CopySymLink :: "state \<Rightarrow> string \<Rightarrow> string \<Rightarrow> error option \<times> state" where
  "CopySymLink st source dest =
     (case os_Readlink st source of
        Inl err \<Rightarrow> (Some err, st)
      | Inr link \<Rightarrow> os_Symlink st link dest)"

text \<open>
  \<^verbatim>\<open>CopyDirectory\<close> recurses into every directory that \<^verbatim>\<open>os.Stat\<close> reports, and
  \<^verbatim>\<open>os.Stat\<close> follows links, so nothing in the code bounds the depth. The first argument
  is the depth that is left; \<open>None\<close> stands for a run that used it up.
  \<open>copyEntries\<close> is the body of the loop over the entries.
\<close>

fun CopyDirectory :: "nat \<Rightarrow> state \<Rightarrow> string \<Rightarrow> string \<Rightarrow> (error option \<times> state) option"
  and copyEntries :: "nat \<Rightarrow> state \<Rightarrow> string \<Rightarrow> string \<Rightarrow> string list \<Rightarrow> (error option \<times> state) option"
where
  "CopyDirectory 0 st scrDir dest = None"
| "CopyDirectory (Suc n) st scrDir dest =
     (case os_ReadDir st scrDir of
        Inl err \<Rightarrow> Some (Some err, st)
      | Inr entries \<Rightarrow> copyEntries n st scrDir dest entries)"
| "copyEntries n st scrDir dest [] = Some (None, st)"
| "copyEntries n st scrDir dest (entry # rest) =
     (let sourcePath = filepath_Join scrDir entry;
          destPath = filepath_Join dest entry
      in case os_Stat st sourcePath of
           Inl err \<Rightarrow> Some (Some err, st)
         | Inr fileInfo \<Rightarrow>
             (case (if nodeMode fileInfo AND ModeType = ModeDir then
                      (case CreateIfNotExists st destPath perm_0755 of
                         (Some err, st1) \<Rightarrow> Some (Some err, st1)
                       | (None, st1) \<Rightarrow> CopyDirectory n st1 sourcePath destPath)
                    else if nodeMode fileInfo AND ModeType = ModeSymlink then
                      Some (CopySymLink st sourcePath destPath)
                    else Some (Copy st sourcePath destPath)) of
                None \<Rightarrow> None
              | Some (Some err, st2) \<Rightarrow> Some (Some err, st2)
              | Some (None, st2) \<Rightarrow>
                  (case os_Lchown st2 destPath (nodeUid fileInfo) (nodeGid fileInfo) of
                     (Some err, st3) \<Rightarrow> Some (Some err, st3)
                   | (None, st3) \<Rightarrow>
                       (case os_Lstat st3 sourcePath of
                          Inl err \<Rightarrow> Some (Some err, st3)
                        | Inr fInfo \<Rightarrow>
                            if nodeMode fInfo AND ModeSymlink \<noteq> 0 then copyEntries n st3 scrDir dest rest
                            else (case os_Chmod st3 destPath (nodeMode fInfo) of
                                    (Some err, st4) \<Rightarrow> Some (Some err, st4)
                                  | (None, st4) \<Rightarrow> copyEntries n st4 scrDir dest rest)))))"

section \<open>The payload (copyExecutable.go)\<close>

definition copyCompExec :: "state \<Rightarrow> string \<Rightarrow> string \<Rightarrow> error option \<times> state" where
  "copyCompExec st execPath execFile =
     (let executablePath = filepath_Join (macosDir st) execFile;
          sourceFileName = filepath_Join execPath execFile
      in case Copy st sourceFileName executablePath of
           (Some err, st1) \<Rightarrow> (Some err, st1)
         | (None, st1) \<Rightarrow> os_Chmod st1 executablePath perm_0755)"

text \<open>The two launcher scripts, \<^verbatim>\<open>fmt.Sprintf\<close> with the name of the JAR for \<^verbatim>\<open>%s\<close>.\<close>

definition nl :: string where
  "nl = [CHR 0x0A]"

definition dq :: string where
  "dq = [CHR 0x22]"

definition scriptHead :: string where
  "scriptHead = ''#!/bin/bash'' @ nl @ nl
     @ ''DIR='' @ dq @ ''$(cd '' @ dq @ ''$(dirname '' @ dq @ ''$0'' @ dq @ '')'' @ dq @ '' && pwd)'' @ dq @ nl"

definition localJavaScript :: "string \<Rightarrow> string" where
  "localJavaScript execFile = scriptHead
     @ ''export JAVA_HOME='' @ dq @ ''$DIR/../Java/runtime'' @ dq @ nl
     @ dq @ ''$JAVA_HOME/bin/java'' @ dq @ '' -jar '' @ dq @ ''$DIR/'' @ execFile @ dq @ nl"

definition systemJavaScript :: "string \<Rightarrow> string" where
  "systemJavaScript execFile = scriptHead
     @ ''java -jar '' @ dq @ ''$DIR/'' @ execFile @ dq @ nl"

text \<open>\<^verbatim>\<open>copyJarExec\<close>. The result of \<^verbatim>\<open>file.Close()\<close> is overwritten before it is read.\<close>

definition copyJarExec :: "nat \<Rightarrow> state \<Rightarrow> string \<Rightarrow> string \<Rightarrow> (error option \<times> state) option" where
  "copyJarExec depth st execPath execFile =
     (let executableName = filepath_Join (macosDir st) (GetBundleExecutable st)
      in case (if GetUseLocalJava st = True
               then CopyDirectory depth st (GetJavaHomeDirectory st) (filepath_Join (javaDir st) ''runtime'')
               else Some (None, st)) of
           None \<Rightarrow> None
         | Some (Some err, st1) \<Rightarrow> Some (Some err, st1)
         | Some (None, st1) \<Rightarrow>
             (let compiledJarSourceName = filepath_Join execPath execFile;
                  compiledJarTargetName = filepath_Join (macosDir st1) execFile
              in case Copy st1 compiledJarSourceName compiledJarTargetName of
                   (Some err, st2) \<Rightarrow> Some (Some err, st2)
                 | (None, st2) \<Rightarrow>
                     (case os_Create st2 executableName of
                        Inl err \<Rightarrow> Some (Some err, st2)
                      | Inr (file, st3) \<Rightarrow>
                          (let startString = (if GetUseLocalJava st3 = True then localJavaScript execFile
                                              else systemJavaScript execFile)
                           in case file_Write st3 file startString of
                                (Some err, st4) \<Rightarrow> Some (Some err, st4)
                              | (None, st4) \<Rightarrow> Some (os_Chmod st4 executableName perm_0755)))))"

text \<open>\<^verbatim>\<open>CopyExecutable\<close>: the error of the strategy is logged and the function ends with
  \<^verbatim>\<open>return nil\<close>.\<close>

definition CopyExecutable :: "nat \<Rightarrow> state \<Rightarrow> (error option \<times> state) option" where
  "CopyExecutable depth st =
     (let execFile = GetExecutableName st;
          execPath = (if GetLocalExecDirectory st \<noteq> [] then GetLocalExecDirectory st
                      else GetExecutableDirectory st)
      in case (if strings_HasSuffix execFile ''jar'' then copyJarExec depth st execPath execFile
               else Some (copyCompExec st execPath execFile)) of
           None \<Rightarrow> None
         | Some (err, st') \<Rightarrow> Some (None, st'))"

section \<open>The icon (copyIcon.go)\<close>

definition CopyIcon :: "state \<Rightarrow> error option \<times> state" where
  "CopyIcon st =
     (let iconSource = GetIconFileName st;
          iconDirectory = GetIconFileDirectory st;
          iconPath = filepath_Join (resourcesDir st) iconSource
      in if iconSource = [] then (Some (ErrorString (''icon filename '' @ iconSource @ '' is not defined'')), st)
         else
           (let iconSource = (if iconDirectory \<noteq> [] then filepath_Join iconDirectory iconSource
                              else iconSource)
            in case os_Open st iconSource of
                 Inl err \<Rightarrow> (Some err, st)
               | Inr sourceFile \<Rightarrow>
                   (case os_Create st iconPath of
                      Inl err \<Rightarrow> (Some err, st)
                    | Inr (destinationFile, st1) \<Rightarrow>
                        (case file_ReadAll st1 sourceFile of
                           Inl err \<Rightarrow> (Some err, st1)
                         | Inr bytes \<Rightarrow>
                             (case file_Write st1 destinationFile bytes of
                                (Some err, st2) \<Rightarrow> (Some err, st2)
                              | (None, st2) \<Rightarrow>
                                  (case file_Stat st2 sourceFile of
                                     Inl err \<Rightarrow> (Some err, st2)
                                   | Inr sourceFileInfo \<Rightarrow> os_Chmod st2 iconPath (nodeMode sourceFileInfo)))))))"

section \<open>Info.plist and PkgInfo (pListCreator.go)\<close>

record InfoPlistData =
  plBundleIdentifier :: string
  plBundleName :: string
  plBundleDisplayName :: string
  plBundleVersion :: string
  plShortVersionString :: string
  plExecutableName :: string
  plSignature :: string
  plMinSystemVersion :: string
  plIconFile :: string
  plPackageType :: string
  plCopyright :: string
  plPrincipalClass :: string
  plMainNibFile :: string

text \<open>One key of \<^verbatim>\<open>plistTemplate\<close> with its value, as the two lines of the template.\<close>

definition plistEntry :: "string \<Rightarrow> string \<Rightarrow> string" where
  "plistEntry k v = ''    <key>'' @ k @ ''</key>'' @ nl @ ''    <string>'' @ v @ ''</string>''"

definition plistHeader :: string where
  \<open>plistHeader =
     ''<?xml version="1.0" encoding="UTF-8"?>'' @ nl
     @ ''<!DOCTYPE plist PUBLIC "-//Apple//DTD PLIST 1.0//EN" "http://www.apple.com/DTDs/PropertyList-1.0.dtd">'' @ nl
     @ ''<plist version="1.0">'' @ nl
     @ ''<dict>'' @ nl\<close>

text \<open>The text that \<^verbatim>\<open>text/template\<close> produces from \<^verbatim>\<open>plistTemplate\<close>: every field is put in
  as it is, and the two \<^verbatim>\<open>{{if}}\<close> blocks appear for a non-empty field.\<close>

definition renderPlistTemplate :: "InfoPlistData \<Rightarrow> string" where
  "renderPlistTemplate d = plistHeader
     @ plistEntry ''CFBundleIdentifier'' (plBundleIdentifier d) @ nl
     @ plistEntry ''CFBundleName'' (plBundleName d) @ nl
     @ plistEntry ''CFBundleDisplayName'' (plBundleDisplayName d) @ nl
     @ plistEntry ''CFBundleVersion'' (plBundleVersion d) @ nl
     @ plistEntry ''CFBundleShortVersionString'' (plShortVersionString d) @ nl
     @ plistEntry ''CFBundleExecutable'' (plExecutableName d) @ nl
     @ plistEntry ''CFBundleSignature'' (plSignature d) @ nl
     @ plistEntry ''LSMinimumSystemVersion'' (plMinSystemVersion d) @ nl
     @ plistEntry ''CFBundleIconFile'' (plIconFile d) @ nl
     @ plistEntry ''CFBundlePackageType'' (plPackageType d) @ nl
     @ plistEntry ''NSHumanReadableCopyright'' (plCopyright d) @ nl
     @ ''    '' @ (if plPrincipalClass d \<noteq> []
                   then drop 4 (plistEntry ''NSPrincipalClass'' (plPrincipalClass d)) else []) @ nl
     @ ''    '' @ (if plMainNibFile d \<noteq> []
                   then drop 4 (plistEntry ''NSMainNibFile'' (plMainNibFile d)) else []) @ nl
     @ ''</dict>'' @ nl
     @ ''</plist>''"

definition cleanAfterError :: "state \<Rightarrow> error \<Rightarrow> error option \<times> state" where
  "cleanAfterError st err =
     (if applicationDirectory st \<noteq> [] then (Some err, snd (DeleteAll st)) else (Some err, st))"

definition pkgInfoBytes :: "state \<Rightarrow> string" where
  "pkgInfoBytes st =
     (let packageType = GetPackageType st;
          packageType = (if length packageType \<noteq> 4 then ''APPL'' else packageType);
          signature = GetBundleSignature st;
          signature = (if length signature \<noteq> 4 then ''????'' else signature)
      in packageType @ signature)"

definition CreatePkgInfo :: "state \<Rightarrow> error option \<times> state" where
  "CreatePkgInfo st =
     (let pkgInfoFileName = filepath_Join (contentsDir st) ''PkgInfo''
      in case os_Create st pkgInfoFileName of
           Inl err \<Rightarrow> cleanAfterError st err
         | Inr (file, st1) \<Rightarrow> file_Write st1 file (pkgInfoBytes st1))"

definition plistStructure :: "state \<Rightarrow> InfoPlistData" where
  "plistStructure st =
     \<lparr> plBundleIdentifier = GetBundleIdentifier st,
       plBundleName = GetBundleName st,
       plBundleDisplayName = GetBundleDisplayName st,
       plBundleVersion = GetBundleVersion st,
       plShortVersionString = GetCFBundleShortVersionString st,
       plExecutableName = GetBundleExecutable st,
       plSignature = GetBundleSignature st,
       plMinSystemVersion = GetMinimumMacOSVersion st,
       plIconFile = GetIconFileName st,
       plPackageType = GetPackageType st,
       plCopyright = GetNSHumanReadableCopyright st,
       plPrincipalClass = GetNSPrincipalClass st,
       plMainNibFile = GetNSMainNibFile st \<rparr>"

text \<open>\<^verbatim>\<open>CreatePlist\<close>. The template is a constant that parses, and executing it on
  string fields fails only when the write does.\<close>

definition CreatePlist :: "state \<Rightarrow> error option \<times> state" where
  "CreatePlist st =
     (let d = plistStructure st;
          plistFileName = filepath_Join (contentsDir st) ''Info.plist''
      in case CreatePkgInfo st of
           (Some err, st1) \<Rightarrow> (Some err, st1)
         | (None, st1) \<Rightarrow>
             if plBundleIdentifier d = [] \<or> plBundleVersion d = [] \<or> plBundleName d = []
                \<or> plExecutableName d = [] \<or> plMinSystemVersion d = [] \<or> plIconFile d = []
             then (Some (ErrorString ''Info.plist <mandatory fields missing>''), st1)
             else
               (case os_Create st1 plistFileName of
                  Inl err \<Rightarrow> cleanAfterError st1 err
                | Inr (file, st2) \<Rightarrow>
                    (case file_Write st2 file (renderPlistTemplate d) of
                       (Some err, st3) \<Rightarrow> cleanAfterError st3 err
                     | (None, st3) \<Rightarrow> (None, st3))))"

section \<open>What the run gets from outside\<close>

text \<open>
  The YAML parser, the programs started with \<^verbatim>\<open>os/exec\<close>, the regular expression of
  \<^verbatim>\<open>getDefaultSigningIdentity\<close> and the clock are not code of this repository. A run
  takes them as parameters: \<open>readConfig\<close> is what opening and parsing the description
  file gives, \<open>lookPath\<close> is \<^verbatim>\<open>exec.LookPath\<close>, \<open>runCmd\<close> runs a command line on the
  file table and gives its error, its two outputs and the new file table,
  \<open>identityMatch\<close> is the first group of the expression in the output of the security
  tool, and \<open>timeStr\<close> is the formatted time of the log file name.
\<close>

record env =
  readConfig :: "string \<Rightarrow> error + packageParameter"
  lookPath :: "string \<Rightarrow> string option"
  runCmd :: "string list \<Rightarrow> (path \<times> node) list \<Rightarrow> (string option \<times> string \<times> string) \<times> (path \<times> node) list"
  identityMatch :: "string \<Rightarrow> string option"
  timeStr :: string

record flags =
  applicationNameFlag :: string
  packageFileFlag :: string
  cleanFlag :: bool
  signFlag :: bool
  deleteFlag :: bool
  notariseFlag :: bool
  appleIDProfileFlag :: string
  silentFlag :: bool
  logDirFlag :: string

text \<open>\<^verbatim>\<open>Read\<close>: every failure goes through \<^verbatim>\<open>logger.Error\<close> and comes back as the error.\<close>

definition Read :: "env \<Rightarrow> state \<Rightarrow> string \<Rightarrow> error option \<times> state" where
  "Read e st packageFileName =
     (let packageFileName = (if packageFileName = [] then ''application.yaml'' else packageFileName)
      in case readConfig e packageFileName of
           Inl err \<Rightarrow> (Some err, st)
         | Inr cfg \<Rightarrow> (None, st\<lparr>packageInfo := cfg\<rparr>))"

subsection \<open>Signing (signApplication.go)\<close>

definition quoted :: "string \<Rightarrow> string" where
  "quoted s = dq @ s @ dq"

definition FindProgramPath :: "env \<Rightarrow> string \<Rightarrow> error + string" where
  "FindProgramPath e program =
     (case lookPath e program of
        None \<Rightarrow> Inl (ErrorString (''program '' @ quoted program @ '' not found in PATH''))
      | Some p \<Rightarrow> Inr p)"

definition exec_Run :: "env \<Rightarrow> state \<Rightarrow> string list \<Rightarrow> (string option \<times> string \<times> string) \<times> state" where
  "exec_Run e st cmd = (case runCmd e cmd (files st) of (r, fs) \<Rightarrow> (r, st\<lparr>files := fs\<rparr>))"

definition getDefaultSigningIdentity :: "env \<Rightarrow> state \<Rightarrow> (error + string) \<times> state" where
  "getDefaultSigningIdentity e st =
     (case FindProgramPath e ''security'' of
        Inl err \<Rightarrow> (Inl err, st)
      | Inr securityPath \<Rightarrow>
          (case exec_Run e st [securityPath, ''find-identity'', ''-p'', ''codesigning'', ''-v''] of
             ((Some err, out, serr), st1) \<Rightarrow>
               (Inl (ErrorString (''failed to run security tool: '' @ err)), st1)
           | ((None, out, serr), st1) \<Rightarrow>
               (case identityMatch e out of
                  None \<Rightarrow> (Inl (ErrorString ''no valid code signing identity found in keychain''), st1)
                | Some name \<Rightarrow> (Inr name, st1))))"

definition VerifyApplicationSignature :: "env \<Rightarrow> state \<Rightarrow> string \<Rightarrow> error option \<times> state" where
  "VerifyApplicationSignature e st appPath =
     (case FindProgramPath e ''codesign'' of
        Inl err \<Rightarrow> (Some err, st)
      | Inr codeSignPath \<Rightarrow>
          (case exec_Run e st [codeSignPath, ''--verify'', ''--deep'', ''--strict'', ''--verbose=2'', appPath] of
             ((Some err, out, serr), st1) \<Rightarrow>
               (Some (ErrorString (''signature verification failed for '' @ quoted appPath @ '': '' @ err @ nl @ serr)), st1)
           | ((None, out, serr), st1) \<Rightarrow> (None, st1)))"

definition SignApplication :: "env \<Rightarrow> state \<Rightarrow> error option \<times> state" where
  "SignApplication e st =
     (case FindProgramPath e ''codesign'' of
        Inl err \<Rightarrow> (Some err, st)
      | Inr codeSignPath \<Rightarrow>
          (case getDefaultSigningIdentity e st of
             (Inl err, st1) \<Rightarrow> (Some err, st1)
           | (Inr identity, st1) \<Rightarrow>
               (case exec_Run e st1 [codeSignPath, ''--sign'', identity, ''--deep'', ''--force'',
                                     ''--options'', ''runtime'', ''--timestamp'', applicationDirectory st1] of
                  ((Some err, out, serr), st2) \<Rightarrow>
                    (Some (ErrorString (''failed to sign '' @ quoted (applicationDirectory st2) @ '': '' @ err @ nl @ serr)), st2)
                | ((None, out, serr), st2) \<Rightarrow> VerifyApplicationSignature e st2 (applicationDirectory st2))))"

definition NotarizeApplication :: "env \<Rightarrow> state \<Rightarrow> string \<Rightarrow> string \<Rightarrow> error option \<times> state" where
  "NotarizeApplication e st applicationRoot appleIDProfile =
     (let zipApplication = applicationRoot @ ''.zip''
      in case FindProgramPath e ''zip'' of
           Inl err \<Rightarrow> (Some err, st)
         | Inr zipPath \<Rightarrow>
             (case exec_Run e st [zipPath, ''-r'', zipApplication, applicationRoot] of
                ((Some err, out, serr), st1) \<Rightarrow>
                  (Some (ErrorString (''failed to zip app for notarization: '' @ err)), st1)
              | ((None, out, serr), st1) \<Rightarrow>
                  (case FindProgramPath e ''xcrun'' of
                     Inl err \<Rightarrow> (Some err, st1)
                   | Inr xcrunPath \<Rightarrow>
                       (case exec_Run e st1 [xcrunPath, ''notarytool'', ''submit'', zipApplication,
                                             ''--keychain-profile'', appleIDProfile, ''--wait''] of
                          ((Some err, out, serr), st2) \<Rightarrow>
                            (Some (ErrorString (''notarization failed: '' @ err @ nl @ serr)), st2)
                        | ((None, out, serr), st2) \<Rightarrow> (None, st2)))))"

subsection \<open>The log file (package logger)\<close>

text \<open>\<^verbatim>\<open>os.OpenFile\<close> with \<^verbatim>\<open>O_RDWR|O_CREATE|O_APPEND\<close>: a file that is there is kept.\<close>

definition os_OpenFileAppend :: "'a os_state_scheme \<Rightarrow> string \<Rightarrow> FileMode \<Rightarrow> error + (path \<times> 'a os_state_scheme)" where
  "os_OpenFileAppend w s perm =
     (if s = [] then Inl (PathError ''open'' s ENOENT)
      else case follow maxLinks (files w) (path_of s) of
             None \<Rightarrow> Inl (PathError ''open'' s ELOOP)
           | Some q \<Rightarrow>
               (case lookup (files w) q of
                  Some (Dir m u g) \<Rightarrow> Inl (PathError ''open'' s EISDIR)
                | Some (Symlink t) \<Rightarrow> Inl (PathError ''open'' s ELOOP)
                | Some (File c m u g) \<Rightarrow> Inr (q, w)
                | None \<Rightarrow>
                    (case parentCheck (files w) q of
                       Some e \<Rightarrow> Inl (PathError ''open'' s e)
                     | None \<Rightarrow>
                         Inr (q, w\<lparr>files := put q (File [] (perm AND NOT (umask w)) (euid w) (egid w)) (files w)\<rparr>))))"

text \<open>\<^verbatim>\<open>SetLogFile\<close> makes the directory and the file of the log. The lines that the logger
  writes, to the terminal and to this file, are not part of the model: the log file keeps
  the content it has.\<close>

definition SetLogFile :: "env \<Rightarrow> state \<Rightarrow> string \<Rightarrow> string \<Rightarrow> error option \<times> state" where
  "SetLogFile e st appName logDir =
     (let fileName = appName @ ''_'' @ timeStr e @ ''.log''
      in case (if logDir \<noteq> [] then os_MkdirAll st logDir perm_0755 else (None, st)) of
           (Some err, st1) \<Rightarrow> (Some (ErrorString (''failed to create log directory: '' @ errorText err)), st1)
         | (None, st1) \<Rightarrow>
             (let filePath = (if logDir \<noteq> [] then filepath_Join logDir fileName else fileName)
              in case os_OpenFileAppend st1 filePath perm_0666 of
                   Inl err \<Rightarrow> (Some (ErrorString (''failed to open log file: '' @ errorText err)), st1)
                 | Inr (file, st2) \<Rightarrow> (None, st2)))"

section \<open>The run (main.go)\<close>

text \<open>
  A run ends with an exit status and the state it leaves. \<^verbatim>\<open>logger.Error\<close> ends the
  process with status 1 (\<^verbatim>\<open>log.Fatalln\<close>), and so does \<^verbatim>\<open>errorExit\<close> for an error that is
  not nil. After the directories are made the steps are chained by \<open>after\<close>: a step that
  returns an error ends the run through \<^verbatim>\<open>errorExit\<close>.
\<close>

definition errorExit :: "state \<Rightarrow> nat \<times> state" where
  "errorExit st = (1, st)"

definition after :: "error option \<times> state \<Rightarrow> (state \<Rightarrow> (nat \<times> state) option) \<Rightarrow> (nat \<times> state) option" where
  "after r k = (case r of (Some err, st) \<Rightarrow> Some (errorExit st) | (None, st) \<Rightarrow> k st)"

definition signStep :: "env \<Rightarrow> flags \<Rightarrow> state \<Rightarrow> error option \<times> state" where
  "signStep e f st = (if signFlag f = True then SignApplication e st else (None, st))"

definition notarizeStep :: "env \<Rightarrow> flags \<Rightarrow> state \<Rightarrow> error option \<times> state" where
  "notarizeStep e f st =
     (if notariseFlag f = True then
        (if appleIDProfileFlag f = []
         then (Some (ErrorString ''notarization requires an Apple ID profile (use -profile <name>)''), st)
         else NotarizeApplication e st (GetBundleName st) (appleIDProfileFlag f))
      else (None, st))"

definition deleteStep :: "flags \<Rightarrow> state \<Rightarrow> error option \<times> state" where
  "deleteStep f st = (if deleteFlag f then DeleteAll st else (None, st))"

definition logStep :: "env \<Rightarrow> flags \<Rightarrow> state \<Rightarrow> state" where
  "logStep e f st =
     (let applicationName = (if applicationNameFlag f = [] then GetBundleName st else applicationNameFlag f)
      in if logDirFlag f \<noteq> [] then
           (let logFileName = (if applicationName = [] then ''appbundler'' else applicationName)
            in snd (SetLogFile e st logFileName (logDirFlag f)))
         else st)"

definition cleanStep :: "flags \<Rightarrow> state \<Rightarrow> state" where
  "cleanStep f st = (if cleanFlag f = True then snd (DeleteAll st) else st)"

definition main :: "nat \<Rightarrow> env \<Rightarrow> flags \<Rightarrow> state \<Rightarrow> (nat \<times> state) option" where
  "main depth e f st0 =
     (case Read e st0 (packageFileFlag f) of
        (Some err, st) \<Rightarrow> Some (1, st)
      | (None, st) \<Rightarrow>
          (case ValidateConfiguration st of
             Some err \<Rightarrow> Some (1, st)
           | None \<Rightarrow>
               (let st1 = logStep e f st;
                    st2 = cleanStep f st1
                in after (CreateDirectoryStructure st2 (GetBundleName st2)) (\<lambda>st3.
                   after (CreatePlist st3) (\<lambda>st4.
                   case CopyExecutable depth st4 of
                     None \<Rightarrow> None
                   | Some r \<Rightarrow>
                       after r (\<lambda>st5.
                       after (CopyIcon st5) (\<lambda>st6.
                       after (signStep e f st6) (\<lambda>st7.
                       after (notarizeStep e f st7) (\<lambda>st8.
                       after (deleteStep f st8) (\<lambda>st9. Some (0, st9)))))))))))"

section \<open>Example configurations and states\<close>

text \<open>The description file of the end-to-end scenario, and states to run the steps on: a
  process of user 501 in group 20 with umask 022 (18), before and after the directories
  of the bundle are made.\<close>

definition emptyCfg :: packageParameter where
  "emptyCfg = \<lparr> BundleIdentifier = [], BundleName = [], BundleVersion = [], BundleDisplayName = [],
     BundlePackageType = [], BundleExecutable = [], BundleSignature = [], ExecFileName = [],
     ExecFileDirectory = [], IconFileName = [], IconFileDirectory = [], MinimumMacOSVersion = [],
     CFBundleDocumentTypes = [], CFBundleShortVersionString = [], NSHumanReadableCopyright = [],
     NSMainNibFile = [], NSPrincipalClass = [], LocalJava = [], LocalJavaHome = [],
     LocalExecDirectory = [] \<rparr>"

definition sampleCfg :: packageParameter where
  "sampleCfg = emptyCfg\<lparr> BundleIdentifier := ''com.x.sample'', BundleName := ''Sample'',
     BundleVersion := ''1.0'', BundleExecutable := ''launch'', ExecFileName := ''app.jar'',
     IconFileName := ''icon.icns'', MinimumMacOSVersion := ''10.13.0'', LocalJava := ''false'' \<rparr>"


definition startState :: "packageParameter \<Rightarrow> (path \<times> node) list \<Rightarrow> state" where
  "startState cfg fs = \<lparr> files = fs, euid = 501, egid = 20, umask = 18, packageInfo = cfg,
     applicationDirectory = [], contentsDir = [], macosDir = [], resourcesDir = [], javaDir = [],
     runtimeDir = [] \<rparr>"

definition builtState :: "packageParameter \<Rightarrow> (path \<times> node) list \<Rightarrow> state" where
  "builtState cfg fs = snd (CreateDirectoryStructure (startState cfg fs) (BundleName cfg))"

text \<open>The scenario without a bundle identifier.\<close>

definition noIdCfg :: packageParameter where
  "noIdCfg = sampleCfg\<lparr>BundleIdentifier := []\<rparr>"

text \<open>A binary payload named with a directory in front, and the files for it.\<close>

definition binCfg :: packageParameter where
  "binCfg = sampleCfg\<lparr>ExecFileName := ''bin/tool''\<rparr>"

definition binFiles :: "(path \<times> node) list" where
  "binFiles = [([''bin''], Dir 493 501 20), ([''bin'', ''tool''], File ''ELF'' 493 501 20),
               ([''icon.icns''], File ''ICON'' 420 501 20)]"

text \<open>An icon named with a directory in front, and the files for it.\<close>

definition iconCfg :: packageParameter where
  "iconCfg = sampleCfg\<lparr>IconFileName := ''art/icon.icns''\<rparr>"

definition iconFiles :: "(path \<times> node) list" where
  "iconFiles = [([''app.jar''], File ''JAR'' 420 501 20), ([''art''], Dir 493 501 20),
                ([''art'', ''icon.icns''], File ''ICON'' 420 501 20)]"

text \<open>A run that finds the given description file, has no tool on its search path, and
  is started without options.\<close>

definition plainEnv :: "packageParameter \<Rightarrow> env" where
  "plainEnv cfg = \<lparr> readConfig = (\<lambda>n. Inr cfg), lookPath = (\<lambda>p. None),
     runCmd = (\<lambda>c fs. ((None, [], []), fs)), identityMatch = (\<lambda>s. None),
     timeStr = ''2025-01-15_14-30-45'' \<rparr>"

definition plainFlags :: flags where
  "plainFlags = \<lparr> applicationNameFlag = ''my_app'', packageFileFlag = ''application.yaml'',
     cleanFlag = False, signFlag = False, deleteFlag = False, notariseFlag = False,
     appleIDProfileFlag = [], silentFlag = False, logDirFlag = [] \<rparr>"

text \<open>Files of the scenario next to a bundle left by an earlier run.\<close>

definition oldFiles :: "(path \<times> node) list" where
  "oldFiles = [([''app.jar''], File ''JAR'' 420 501 20), ([''icon.icns''], File ''ICON'' 420 501 20),
               ([''Sample.app''], Dir 493 501 20), ([''Sample.app'', ''old.txt''], File ''OLD'' 420 501 20)]"

text \<open>The second state is the first one with another file table.\<close>

definition onlyFiles :: "'a os_state_scheme \<Rightarrow> 'a os_state_scheme \<Rightarrow> bool" where
  "onlyFiles w w' = (\<exists>fs. w' = w\<lparr>files := fs\<rparr>)"

text \<open>The scenario with a bundled Java runtime whose home holds a file and a link to it.\<close>

definition javaCfg :: packageParameter where
  "javaCfg = sampleCfg\<lparr>LocalJava := ''true'', LocalJavaHome := ''jdk''\<rparr>"

definition javaFiles :: "(path \<times> node) list" where
  "javaFiles = [([''app.jar''], File ''JAR'' 420 501 20), ([''icon.icns''], File ''ICON'' 420 501 20),
                ([''jdk''], Dir 493 501 20), ([''jdk'', ''java''], File ''JAVA'' 493 501 20),
                ([''jdk'', ''latest''], Symlink ''java'')]"

text \<open>A binary payload with its source directory.\<close>

definition toolCfg :: packageParameter where
  "toolCfg = sampleCfg\<lparr>ExecFileName := ''tool'', ExecFileDirectory := ''dist''\<rparr>"

definition toolFiles :: "(path \<times> node) list" where
  "toolFiles = [([''dist''], Dir 493 501 20), ([''dist'', ''tool''], File ''ELF'' 420 501 20),
                ([''icon.icns''], File ''ICON'' 420 501 20)]"




fun isLinkNode :: "node \<Rightarrow> bool" where
  "isLinkNode (Symlink t) = True"
| "isLinkNode _ = False"

section \<open>Facts about the file system\<close>

lemma map_of_put: "map_of (put k v fs) = (map_of fs)(k \<mapsto> v)"
  by (induction fs) (auto simp: fun_eq_iff)

lemma lookup_put:
  "lookup (put q v fs) p = (if p = q \<and> p \<noteq> [] \<and> p \<noteq> [''/''] then Some v else lookup fs p)"
  by (simp add: lookup_def map_of_put)

text \<open>Putting a file or a directory where no link is does not change where names lead.\<close>

lemma follow_put:
  assumes "\<not> isLinkNode v" and "\<forall>t. lookup fs q \<noteq> Some (Symlink t)"
  shows "follow n (put q v fs) p = follow n fs p"
  using assms
proof (induction n arbitrary: p)
  case 0
  then show ?case by simp
next
  case (Suc n)
  show ?case
  proof (cases "p = q \<and> p \<noteq> [] \<and> p \<noteq> [''/'']")
    case True
    with Suc.prems show ?thesis
      by (cases v; cases "lookup fs q") (auto simp: lookup_put split: node.splits option.splits)
  next
    case False
    then have "lookup (put q v fs) p = lookup fs p" by (auto simp add: lookup_put)
    with Suc show ?thesis by (simp split: option.splits node.splits)
  qed
qed

lemma os_Create_Inr:
  assumes "os_Create w s = Inr (h, w1)"
  shows "s \<noteq> [] \<and> follow maxLinks (files w) (path_of s) = Some h \<and> h \<noteq> [] \<and> h \<noteq> [''/'']
     \<and> (\<forall>t. lookup (files w) h \<noteq> Some (Symlink t))
     \<and> (\<exists>m u g. w1 = w\<lparr>files := put h (File [] m u g) (files w)\<rparr>)"
  using assms
  by (auto simp: os_Create_def lookup_def split: if_splits option.splits node.splits)

text \<open>What is written into a file right after \<^verbatim>\<open>os.Create\<close> is what the name reads as.\<close>

lemma create_write_read:
  assumes "os_Create w s = Inr (h, w1)"
  shows "\<exists>w2. file_Write w1 h str = (None, w2) \<and> os_ReadFile w2 s = Inr str
      \<and> (\<exists>m u g. w2 = w1\<lparr>files := put h (File str m u g) (files w1)\<rparr>)"
proof -
  from os_Create_Inr[OF assms] obtain m u g where
    s: "s \<noteq> []" and f: "follow maxLinks (files w) (path_of s) = Some h"
    and h: "h \<noteq> []" "h \<noteq> [''/'']" and nl: "\<forall>t. lookup (files w) h \<noteq> Some (Symlink t)"
    and w1: "w1 = w\<lparr>files := put h (File [] m u g) (files w)\<rparr>" by blast
  have l1: "lookup (files w1) h = Some (File [] m u g)" using h by (simp add: w1 lookup_put)
  define w2 where "w2 = w1\<lparr>files := put h (File str m u g) (files w1)\<rparr>"
  have fw: "file_Write w1 h str = (None, w2)" by (simp add: file_Write_def l1 w2_def)
  have f1: "follow maxLinks (files w1) (path_of s) = Some h"
    using f nl by (simp add: w1 follow_put)
  have f2: "follow maxLinks (files w2) (path_of s) = Some h"
    using f1 l1 by (simp add: w2_def follow_put)
  have l2: "lookup (files w2) h = Some (File str m u g)" using h by (simp add: w2_def lookup_put)
  have "os_ReadFile w2 s = Inr str"
    by (simp add: os_ReadFile_def os_Open_def s f2 l2 file_ReadAll_def)
  with fw show ?thesis using w2_def by blast
qed

section \<open>PkgInfo\<close>


lemma pkgInfoBytes_eq:
  "pkgInfoBytes st = (if length (GetPackageType st) = 4 then GetPackageType st else ''APPL'')
      @ (if length (GetBundleSignature st) = 4 then GetBundleSignature st else ''????'')"
  by (simp add: pkgInfoBytes_def Let_def)

lemma CreatePkgInfo_None:
  assumes "CreatePkgInfo st = (None, st')"
  shows "os_ReadFile st' (filepath_Join (contentsDir st) ''PkgInfo'') = Inr (pkgInfoBytes st)"
proof -
  let ?n = "filepath_Join (contentsDir st) ''PkgInfo''"
  from assms obtain h st1 where c: "os_Create st ?n = Inr (h, st1)"
    and w: "file_Write st1 h (pkgInfoBytes st1) = (None, st')"
    by (auto simp: CreatePkgInfo_def Let_def cleanAfterError_def split: sum.splits if_splits)
  from os_Create_Inr[OF c] have "packageInfo st1 = packageInfo st" by auto
  then have b: "pkgInfoBytes st1 = pkgInfoBytes st"
    by (simp add: pkgInfoBytes_def GetPackageType_def GetBundleSignature_def)
  from create_write_read[OF c, of "pkgInfoBytes st"] w b show ?thesis by auto
qed




section \<open>Info.plist\<close>

lemma CreatePlist_None:
  assumes "CreatePlist st = (None, st')"
  shows "os_ReadFile st' (filepath_Join (contentsDir st) ''Info.plist'')
           = Inr (renderPlistTemplate (plistStructure st))"
proof -
  let ?n = "filepath_Join (contentsDir st) ''Info.plist''"
  let ?d = "renderPlistTemplate (plistStructure st)"
  from assms obtain st1 h st2 where "CreatePkgInfo st = (None, st1)"
    and c: "os_Create st1 ?n = Inr (h, st2)"
    and w: "file_Write st2 h ?d = (None, st')"
    by (auto simp: CreatePlist_def Let_def cleanAfterError_def
             split: prod.splits option.splits sum.splits if_splits)
  from create_write_read[OF c, of ?d] w show ?thesis by auto
qed

lemma render_has_type:
  "\<exists>pre post. renderPlistTemplate d = pre @ plistEntry ''CFBundlePackageType'' (plPackageType d) @ post"
  unfolding renderPlistTemplate_def
  by (metis append.assoc)

text \<open>
  Claim C4. When one of the six mandatory fields (identifier, version, name, executable
  name, minimum OS version, icon file name) is empty, \<^verbatim>\<open>CreatePlist\<close> returns an error and
  leaves the state that \<^verbatim>\<open>CreatePkgInfo\<close> alone leaves: nothing is done for Info.plist.
  \<^verbatim>\<open>CreatePkgInfo\<close> runs before the check, so when it succeeds the error is the
  validation error and the PkgInfo file is on disk with its eight bytes.
\<close>

theorem CreatePlist_missing_fields:
  assumes "GetBundleIdentifier st = [] \<or> GetBundleVersion st = [] \<or> GetBundleName st = []
     \<or> GetBundleExecutable st = [] \<or> GetMinimumMacOSVersion st = [] \<or> GetIconFileName st = []"
  shows "fst (CreatePlist st) \<noteq> None \<and> snd (CreatePlist st) = snd (CreatePkgInfo st)
     \<and> (fst (CreatePkgInfo st) = None \<longrightarrow>
           fst (CreatePlist st) = Some (ErrorString ''Info.plist <mandatory fields missing>'')
         \<and> os_ReadFile (snd (CreatePlist st)) (filepath_Join (contentsDir st) ''PkgInfo'')
             = Inr (pkgInfoBytes st))"
proof -
  obtain r st1 where p: "CreatePkgInfo st = (r, st1)" by (cases "CreatePkgInfo st")
  have a: "fst (CreatePlist st) \<noteq> None \<and> snd (CreatePlist st) = st1
     \<and> (r = None \<longrightarrow> fst (CreatePlist st) = Some (ErrorString ''Info.plist <mandatory fields missing>''))"
    using assms p by (cases r) (auto simp: CreatePlist_def Let_def plistStructure_def)
  have "r = None \<longrightarrow> os_ReadFile st1 (filepath_Join (contentsDir st) ''PkgInfo'') = Inr (pkgInfoBytes st)"
    using p CreatePkgInfo_None by auto
  with a p show ?thesis by simp
qed

text \<open>Without an identifier the scenario ends with the validation error, a PkgInfo file
  and no Info.plist.\<close>

theorem CreatePlist_missing_fields_witness:
  "GetBundleIdentifier (builtState noIdCfg []) = []
   \<and> CreatePlist (builtState noIdCfg [])
       = (Some (ErrorString ''Info.plist <mandatory fields missing>''), snd (CreatePkgInfo (builtState noIdCfg [])))
   \<and> os_ReadFile (snd (CreatePlist (builtState noIdCfg []))) ''Sample.app/Contents/PkgInfo'' = Inr ''APPL????''
   \<and> os_Lstat (snd (CreatePlist (builtState noIdCfg []))) ''Sample.app/Contents/Info.plist''
       = Inl (PathError ''lstat'' ''Sample.app/Contents/Info.plist'' ENOENT)"
proof -
  have i: "GetBundleIdentifier (builtState noIdCfg []) = []" by code_simp
  have k: "fst (CreatePkgInfo (builtState noIdCfg [])) = None" by code_simp
  have c: "filepath_Join (contentsDir (builtState noIdCfg [])) ''PkgInfo'' = ''Sample.app/Contents/PkgInfo''"
    by code_simp
  have b: "pkgInfoBytes (builtState noIdCfg []) = ''APPL????''" by code_simp
  have l: "os_Lstat (snd (CreatePkgInfo (builtState noIdCfg []))) ''Sample.app/Contents/Info.plist''
       = Inl (PathError ''lstat'' ''Sample.app/Contents/Info.plist'' ENOENT)" by code_simp
  from CreatePlist_missing_fields[of "builtState noIdCfg []"] i k
  have 1: "snd (CreatePlist (builtState noIdCfg [])) = snd (CreatePkgInfo (builtState noIdCfg []))"
    and 2: "fst (CreatePlist (builtState noIdCfg [])) = Some (ErrorString ''Info.plist <mandatory fields missing>'')"
    and 3: "os_ReadFile (snd (CreatePlist (builtState noIdCfg [])))
              (filepath_Join (contentsDir (builtState noIdCfg [])) ''PkgInfo'')
             = Inr (pkgInfoBytes (builtState noIdCfg []))"
    by blast+
  from 3 have 4: "os_ReadFile (snd (CreatePlist (builtState noIdCfg []))) ''Sample.app/Contents/PkgInfo'' = Inr ''APPL????''"
    by (simp only: c b)
  from l have 5: "os_Lstat (snd (CreatePlist (builtState noIdCfg []))) ''Sample.app/Contents/Info.plist''
       = Inl (PathError ''lstat'' ''Sample.app/Contents/Info.plist'' ENOENT)"
    by (simp only: 1)
  have 6: "CreatePlist (builtState noIdCfg [])
       = (Some (ErrorString ''Info.plist <mandatory fields missing>''), snd (CreatePkgInfo (builtState noIdCfg [])))"
    using 1 2 by (simp add: prod_eq_iff)
  from i 6 4 5 show ?thesis by blast
qed

text \<open>
  Claim C10. When the configured package type is empty, \<^verbatim>\<open>GetPackageType\<close> gives the
  three characters \<open>''APP''\<close>: this is the value of \<^verbatim>\<open>CFBundlePackageType\<close> in the rendered
  Info.plist, while the type bytes of PkgInfo are \<open>''APPL''\<close>, because \<open>''APP''\<close> fails
  the length check. The files on disk hold these texts when the two functions succeed.
\<close>

theorem package_type_disagrees:
  assumes "BundlePackageType (packageInfo st) = []"
  shows "plPackageType (plistStructure st) = ''APP''
     \<and> (\<exists>pre post. renderPlistTemplate (plistStructure st)
            = pre @ plistEntry ''CFBundlePackageType'' ''APP'' @ post)
     \<and> take 4 (pkgInfoBytes st) = ''APPL''
     \<and> (CreatePkgInfo st = (None, st1) \<longrightarrow>
          os_ReadFile st1 (filepath_Join (contentsDir st) ''PkgInfo'') = Inr (pkgInfoBytes st))
     \<and> (CreatePlist st = (None, st') \<longrightarrow>
          os_ReadFile st' (filepath_Join (contentsDir st) ''Info.plist'')
            = Inr (renderPlistTemplate (plistStructure st)))"
proof -
  have t: "plPackageType (plistStructure st) = ''APP''"
    using assms by (simp add: plistStructure_def GetPackageType_def)
  have g: "GetPackageType st = ''APP''" using assms by (simp add: GetPackageType_def)
  have b: "take 4 (pkgInfoBytes st) = ''APPL''" by (simp add: pkgInfoBytes_eq g)
  from render_has_type[of "plistStructure st"] t
  have r: "\<exists>pre post. renderPlistTemplate (plistStructure st)
            = pre @ plistEntry ''CFBundlePackageType'' ''APP'' @ post" by simp
  from t r b CreatePkgInfo_None CreatePlist_None show ?thesis by blast
qed

text \<open>The scenario sets no package type.\<close>

theorem package_type_disagrees_witness:
  "BundlePackageType (packageInfo (builtState sampleCfg [])) = []
   \<and> plPackageType (plistStructure (builtState sampleCfg [])) = ''APP''
   \<and> take 4 (pkgInfoBytes (builtState sampleCfg [])) = ''APPL''
   \<and> os_ReadFile (snd (CreatePkgInfo (builtState sampleCfg []))) ''Sample.app/Contents/PkgInfo''
        = Inr ''APPL????''
   \<and> os_ReadFile (snd (CreatePlist (builtState sampleCfg []))) ''Sample.app/Contents/Info.plist''
        = Inr (renderPlistTemplate (plistStructure (builtState sampleCfg [])))"
proof -
  have e: "BundlePackageType (packageInfo (builtState sampleCfg [])) = []" by code_simp
  have k: "CreatePkgInfo (builtState sampleCfg []) = (None, snd (CreatePkgInfo (builtState sampleCfg [])))"
    by code_simp
  have l: "CreatePlist (builtState sampleCfg []) = (None, snd (CreatePlist (builtState sampleCfg [])))"
    by code_simp
  have c: "filepath_Join (contentsDir (builtState sampleCfg [])) ''PkgInfo'' = ''Sample.app/Contents/PkgInfo''"
    by code_simp
  have d: "filepath_Join (contentsDir (builtState sampleCfg [])) ''Info.plist'' = ''Sample.app/Contents/Info.plist''"
    by code_simp
  have b: "pkgInfoBytes (builtState sampleCfg []) = ''APPL????''" by code_simp
  from package_type_disagrees[OF e, of "snd (CreatePkgInfo (builtState sampleCfg []))"
      "snd (CreatePlist (builtState sampleCfg []))"] k l
  have 1: "plPackageType (plistStructure (builtState sampleCfg [])) = ''APP''"
    and 2: "take 4 (pkgInfoBytes (builtState sampleCfg [])) = ''APPL''"
    and 3: "os_ReadFile (snd (CreatePkgInfo (builtState sampleCfg [])))
              (filepath_Join (contentsDir (builtState sampleCfg [])) ''PkgInfo'')
             = Inr (pkgInfoBytes (builtState sampleCfg []))"
    and 4: "os_ReadFile (snd (CreatePlist (builtState sampleCfg [])))
              (filepath_Join (contentsDir (builtState sampleCfg [])) ''Info.plist'')
             = Inr (renderPlistTemplate (plistStructure (builtState sampleCfg [])))"
    by blast+
  from 3 have 5: "os_ReadFile (snd (CreatePkgInfo (builtState sampleCfg []))) ''Sample.app/Contents/PkgInfo''
        = Inr ''APPL????''" by (simp only: c b)
  from 4 have 6: "os_ReadFile (snd (CreatePlist (builtState sampleCfg []))) ''Sample.app/Contents/Info.plist''
        = Inr (renderPlistTemplate (plistStructure (builtState sampleCfg [])))" by (simp only: d)
  from e 1 2 5 6 show ?thesis by blast
qed

section \<open>The payload\<close>

lemma CopyExecutable_nil: "CopyExecutable depth st = Some (err, st') \<Longrightarrow> err = None"
  by (auto simp: CopyExecutable_def Let_def split: option.splits if_splits prod.splits)

text \<open>
  Claim C2 asks that \<^verbatim>\<open>CopyExecutable\<close> returns an error whenever its strategy fails. With
  the payload \<^verbatim>\<open>bin/tool\<close> the binary strategy fails, because the bundle has no directory
  \<^verbatim>\<open>Contents/MacOS/bin\<close> to create the copy in, and \<^verbatim>\<open>CopyExecutable\<close> returns nil.
\<close>

theorem CopyExecutable_hides_failure:
  "fst (copyCompExec (builtState binCfg binFiles) [] ''bin/tool'')
     = Some (PathError ''open'' ''Sample.app/Contents/MacOS/bin/tool'' ENOENT)
   \<and> map_option fst (CopyExecutable 1 (builtState binCfg binFiles)) = Some None"
  by code_simp

text \<open>The run on this payload ends with status 0 and a bundle without the executable.\<close>

lemma main_exits_zero_without_payload:
  "map_option (\<lambda>(c, s). (c, lookup (files s) [''Sample.app'', ''Contents'', ''MacOS'', ''bin'', ''tool'']))
     (main 1 (plainEnv binCfg) plainFlags (startState emptyCfg binFiles)) = Some (0, None)"
  by code_simp

section \<open>Failures after the directories are made\<close>

text \<open>
  Claim C1 asks that every failure after the directories are made removes the bundle
  before the process ends. With the icon \<^verbatim>\<open>art/icon.icns\<close> the pre-flight check passes
  and \<^verbatim>\<open>CopyIcon\<close> fails, because the bundle has no directory \<^verbatim>\<open>Contents/Resources/art\<close>;
  the run ends with status 1 and leaves the bundle directory and its PkgInfo file.
\<close>

theorem main_icon_failure_keeps_bundle:
  "map_option (\<lambda>(c, s). (c, lookup (files s) [''Sample.app''], os_ReadFile s ''Sample.app/Contents/PkgInfo''))
     (main 1 (plainEnv iconCfg) plainFlags (startState emptyCfg iconFiles))
     = Some (1, Some (Dir 493 501 20), Inr ''APPL????'')"
  by code_simp

section \<open>The steps before the directories are made\<close>

lemma onlyFiles_refl: "onlyFiles w w"
  unfolding onlyFiles_def by (rule exI[of _ "files w"]) simp

lemma onlyFiles_upd: "onlyFiles w (w\<lparr>files := fs\<rparr>)"
  unfolding onlyFiles_def by blast

lemma onlyFiles_trans: "onlyFiles w w' \<Longrightarrow> onlyFiles w' w'' \<Longrightarrow> onlyFiles w w''"
  unfolding onlyFiles_def by clarsimp blast

lemma mkdir1_only: "mkdir1 w p perm = Inr w' \<Longrightarrow> onlyFiles w w'"
  by (auto simp: mkdir1_def onlyFiles_upd split: option.splits)

lemma mkdirAllFrom_only: "onlyFiles w (snd (mkdirAllFrom w done cs perm))"
proof (induction cs arbitrary: w "done")
  case Nil
  show ?case by (simp add: onlyFiles_refl)
next
  case (Cons c cs)
  show ?case
  proof (cases "statNode w (done @ [c])")
    case (Some n)
    then show ?thesis using Cons.IH[of w "done @ [c]"] by (simp add: onlyFiles_refl)
  next
    case None
    show ?thesis
    proof (cases "mkdir1 w (done @ [c]) perm")
      case (Inl e)
      then show ?thesis using None by (simp add: onlyFiles_refl)
    next
      case (Inr w')
      from onlyFiles_trans[OF mkdir1_only[OF Inr] Cons.IH[of w' "done @ [c]"]]
      show ?thesis using None Inr by simp
    qed
  qed
qed

lemma os_MkdirAll_only: "onlyFiles w (snd (os_MkdirAll w s perm))"
proof (cases "s = []")
  case True
  then show ?thesis by (simp add: os_MkdirAll_def onlyFiles_refl)
next
  case False
  with mkdirAllFrom_only[of w "[]" "path_of s" perm] show ?thesis
    by (cases "mkdirAllFrom w [] (path_of s) perm") (auto simp: os_MkdirAll_def split: option.splits)
qed

lemma os_OpenFileAppend_only:
  "os_OpenFileAppend w s perm = Inr (h, w') \<Longrightarrow> onlyFiles w w'"
  by (auto simp: os_OpenFileAppend_def onlyFiles_refl onlyFiles_upd split: if_splits option.splits node.splits)

lemma os_RemoveAll_only: "onlyFiles w (snd (os_RemoveAll w s))"
  by (simp add: os_RemoveAll_def onlyFiles_refl onlyFiles_upd)

lemma onlyFiles_appdir:
  fixes st :: state
  assumes "onlyFiles st st'"
  shows "applicationDirectory st' = applicationDirectory st"
    and "packageInfo st' = packageInfo st"
    and "contentsDir st' = contentsDir st"
    and "macosDir st' = macosDir st"
  using assms unfolding onlyFiles_def by auto

lemma SetLogFile_only: "onlyFiles st (snd (SetLogFile e st n d))"
proof -
  have m: "onlyFiles st (snd (os_MkdirAll st d perm_0755))" by (rule os_MkdirAll_only)
  show ?thesis
  proof (cases "os_MkdirAll st d perm_0755")
    case (Pair r st1)
    with m have m1: "onlyFiles st st1" by simp
    show ?thesis
    proof (cases "d \<noteq> []")
      case True
      show ?thesis
      proof (cases r)
        case None
        with Pair True m1 show ?thesis
          by (auto simp: SetLogFile_def Let_def split: sum.splits
                   intro: onlyFiles_trans dest: os_OpenFileAppend_only)
      next
        case (Some err)
        with Pair True m1 show ?thesis by (simp add: SetLogFile_def Let_def)
      qed
    next
      case False
      then show ?thesis
        by (auto simp: SetLogFile_def Let_def onlyFiles_refl split: sum.splits
                 dest: os_OpenFileAppend_only)
    qed
  qed
qed

lemma logStep_appdir: "applicationDirectory (logStep e f st) = applicationDirectory st"
  by (simp add: logStep_def Let_def onlyFiles_appdir(1)[OF SetLogFile_only])

lemma Read_appdir: "Read e st0 n = (r, st) \<Longrightarrow> applicationDirectory st = applicationDirectory st0"
  by (auto simp: Read_def Let_def split: sum.splits)


lemma DeleteAll_empty: "applicationDirectory st = [] \<Longrightarrow> DeleteAll st = (None, st)"
  by (simp add: DeleteAll_def os_RemoveAll_def)

lemma logStep_cleanFlag: "logStep e (f\<lparr>cleanFlag := b\<rparr>) s = logStep e f s"
  by (simp add: logStep_def Let_def)

lemma signStep_cleanFlag: "signStep e (f\<lparr>cleanFlag := b\<rparr>) s = signStep e f s"
  by (simp add: signStep_def)

lemma notarizeStep_cleanFlag: "notarizeStep e (f\<lparr>cleanFlag := b\<rparr>) s = notarizeStep e f s"
  by (simp add: notarizeStep_def)

lemma deleteStep_cleanFlag: "deleteStep (f\<lparr>cleanFlag := b\<rparr>) s = deleteStep f s"
  by (simp add: deleteStep_def)

lemma cleanStep_empty: "applicationDirectory s = [] \<Longrightarrow> cleanStep f s = s"
  by (simp add: cleanStep_def DeleteAll_empty)

lemma main_cleanFlag:
  assumes "applicationDirectory st0 = []"
  shows "main depth e (f\<lparr>cleanFlag := b\<rparr>) st0 = main depth e (f\<lparr>cleanFlag := False\<rparr>) st0"
proof (cases "Read e st0 (packageFileFlag f)")
  case (Pair r s)
  show ?thesis
  proof (cases r)
    case None
    from Pair assms have "applicationDirectory (logStep e f s) = []"
      by (simp add: logStep_appdir Read_appdir)
    then have c: "\<And>b. cleanStep (f\<lparr>cleanFlag := b\<rparr>) (logStep e f s) = logStep e f s"
      by (rule cleanStep_empty)
    show ?thesis
      unfolding main_def using Pair None c
      by (simp add: Let_def logStep_cleanFlag signStep_cleanFlag notarizeStep_cleanFlag
            deleteStep_cleanFlag cong: option.case_cong)
  next
    case (Some err)
    with Pair show ?thesis by (simp add: main_def)
  qed
qed

text \<open>
  Claim C9. A run starts with the package variable \<^verbatim>\<open>applicationDirectory\<close> empty, and
  nothing sets it before \<^verbatim>\<open>CreateDirectoryStructure\<close>. So the \<^verbatim>\<open>DeleteAll\<close> of the clean
  option is called with the empty path: whatever files there are, it returns no error and
  leaves the state as it is, and the run with the option is the run without it.
\<close>

theorem clean_flag_removes_nothing:
  assumes "applicationDirectory st0 = []"
  shows "(Read e st0 (packageFileFlag f) = (None, st) \<longrightarrow>
            applicationDirectory (logStep e f st) = []
          \<and> DeleteAll (logStep e f st) = (None, logStep e f st))
     \<and> main depth e (f\<lparr>cleanFlag := True\<rparr>) st0 = main depth e (f\<lparr>cleanFlag := False\<rparr>) st0"
proof -
  have a: "Read e st0 (packageFileFlag f) = (None, st) \<longrightarrow>
            applicationDirectory (logStep e f st) = []
          \<and> DeleteAll (logStep e f st) = (None, logStep e f st)"
    using assms by (auto simp: logStep_appdir DeleteAll_empty dest: Read_appdir)
  from a main_cleanFlag[OF assms] show ?thesis by blast
qed

text \<open>A bundle of an earlier run, with a file of its own, is still there after a run with
  the clean option.\<close>

theorem clean_flag_removes_nothing_witness:
  "applicationDirectory (startState emptyCfg oldFiles) = []
   \<and> main 1 (plainEnv sampleCfg) (plainFlags\<lparr>cleanFlag := True\<rparr>) (startState emptyCfg oldFiles)
       = main 1 (plainEnv sampleCfg) (plainFlags\<lparr>cleanFlag := False\<rparr>) (startState emptyCfg oldFiles)
   \<and> map_option (\<lambda>(c, s). (c, os_ReadFile s ''Sample.app/old.txt''))
        (main 1 (plainEnv sampleCfg) (plainFlags\<lparr>cleanFlag := True\<rparr>) (startState emptyCfg oldFiles))
       = Some (0, Inr ''OLD'')"
proof -
  have a: "applicationDirectory (startState emptyCfg oldFiles) = []" by (simp add: startState_def)
  have r: "map_option (\<lambda>(c, s). (c, os_ReadFile s ''Sample.app/old.txt''))
        (main 1 (plainEnv sampleCfg) (plainFlags\<lparr>cleanFlag := True\<rparr>) (startState emptyCfg oldFiles))
       = Some (0, Inr ''OLD'')" by code_simp
  from clean_flag_removes_nothing[OF a, of "plainEnv sampleCfg" plainFlags _ 1] a r
  show ?thesis by blast
qed



section \<open>Cleaning and joining paths\<close>
























section \<open>Making and removing the directories\<close>
















section \<open>The Java runtime\<close>

text \<open>
  Claim C6 asks that the JAR strategy copies the Java home with its symbolic links made
  again as links. \<^verbatim>\<open>CopyDirectory\<close> chooses by the mode that \<^verbatim>\<open>os.Stat\<close> reports, and
  \<^verbatim>\<open>os.Stat\<close> follows links, so the branch for links is never taken: the link
  \<^verbatim>\<open>jdk/latest\<close> to the file \<^verbatim>\<open>java\<close> arrives in the bundle as a regular file with the
  content of its target.
\<close>

theorem CopyDirectory_copies_link_target:
  "os_Lstat (builtState javaCfg javaFiles) ''jdk/latest'' = Inr (Symlink ''java'')
   \<and> map_option (\<lambda>(err, s). (err, os_Lstat s ''Sample.app/Contents/Java/runtime/latest''))
        (copyJarExec 5 (builtState javaCfg javaFiles) [] ''app.jar'')
       = Some (None, Inr (File ''JAVA'' 420 501 20))"
  by code_simp

section \<open>The choice of the strategy and the binary strategy\<close>

lemma os_ReadFile_iff:
  "os_ReadFile w s = Inr c \<longleftrightarrow>
     s \<noteq> [] \<and> (\<exists>q m u g. follow maxLinks (files w) (path_of s) = Some q \<and> lookup (files w) q = Some (File c m u g))"
  by (auto simp: os_ReadFile_def os_Open_def file_ReadAll_def split: option.splits node.splits sum.splits)

lemma perm_0755_bits: "perm_0755 AND perm_0777 = perm_0755"
  by (simp add: perm_0755_def perm_0777_def)

lemma Copy_None:
  assumes "Copy st src dst = (None, st1)"
  shows "\<exists>out inp bytes m u g.
           dst \<noteq> [] \<and> src \<noteq> []
         \<and> follow maxLinks (files st) (path_of dst) = Some out \<and> out \<noteq> [] \<and> out \<noteq> [''/'']
         \<and> (\<forall>t. lookup (files st) out \<noteq> Some (Symlink t))
         \<and> follow maxLinks (files st) (path_of src) = Some inp
         \<and> (inp \<noteq> out \<longrightarrow> (\<exists>m' u' g'. lookup (files st) inp = Some (File bytes m' u' g')))
         \<and> (inp = out \<longrightarrow> bytes = [])
         \<and> st1 = st\<lparr>files := put out (File bytes m u g) (put out (File [] m u g) (files st))\<rparr>"
proof -
  from assms obtain out sa inp bytes where c: "os_Create st dst = Inr (out, sa)"
    and o: "os_Open sa src = Inr inp" and r: "file_ReadAll sa inp = Inr bytes"
    and w: "file_Write sa out bytes = (None, st1)"
    by (auto simp: Copy_def split: sum.splits prod.splits)
  from os_Create_Inr[OF c] obtain m u g where
    d: "dst \<noteq> []" and f: "follow maxLinks (files st) (path_of dst) = Some out"
    and h: "out \<noteq> []" "out \<noteq> [''/'']" and nl: "\<forall>t. lookup (files st) out \<noteq> Some (Symlink t)"
    and sa: "sa = st\<lparr>files := put out (File [] m u g) (files st)\<rparr>" by blast
  have la: "lookup (files sa) out = Some (File [] m u g)" using h by (simp add: sa lookup_put)
  from w la have st1: "st1 = sa\<lparr>files := put out (File bytes m u g) (files sa)\<rparr>"
    by (simp add: file_Write_def)
  from o have s: "src \<noteq> []" by (auto simp: os_Open_def split: if_splits)
  from o s have fi: "follow maxLinks (files sa) (path_of src) = Some inp"
    by (auto simp: os_Open_def split: option.splits node.splits)
  then have fi0: "follow maxLinks (files st) (path_of src) = Some inp"
    using nl by (simp add: sa follow_put)
  from r obtain m' u' g' where li: "lookup (files sa) inp = Some (File bytes m' u' g')"
    by (auto simp: file_ReadAll_def split: option.splits node.splits)
  have a: "inp \<noteq> out \<longrightarrow> (\<exists>m' u' g'. lookup (files st) inp = Some (File bytes m' u' g'))"
    using li by (auto simp: sa lookup_put)
  have b: "inp = out \<longrightarrow> bytes = []" using li la by auto
  have e: "st1 = st\<lparr>files := put out (File bytes m u g) (put out (File [] m u g) (files st))\<rparr>"
    by (simp add: st1 sa)
  from d s f h nl fi0 a b e have
    "dst \<noteq> [] \<and> src \<noteq> []
         \<and> follow maxLinks (files st) (path_of dst) = Some out \<and> out \<noteq> [] \<and> out \<noteq> [''/'']
         \<and> (\<forall>t. lookup (files st) out \<noteq> Some (Symlink t))
         \<and> follow maxLinks (files st) (path_of src) = Some inp
         \<and> (inp \<noteq> out \<longrightarrow> (\<exists>m' u' g'. lookup (files st) inp = Some (File bytes m' u' g')))
         \<and> (inp = out \<longrightarrow> bytes = [])
         \<and> st1 = st\<lparr>files := put out (File bytes m u g) (put out (File [] m u g) (files st))\<rparr>"
    by blast
  then show ?thesis by (intro exI)
qed

lemma copyCompExec_None:
  assumes "copyCompExec st execPath execFile = (None, st')"
  shows "\<exists>bytes u g.
       os_ReadFile st' (filepath_Join (macosDir st) execFile) = Inr bytes
     \<and> os_ReadFile st' (filepath_Join execPath execFile) = Inr bytes
     \<and> os_Stat st' (filepath_Join (macosDir st) execFile) = Inr (File bytes perm_0755 u g)
     \<and> (follow maxLinks (files st) (path_of (filepath_Join execPath execFile))
           \<noteq> follow maxLinks (files st) (path_of (filepath_Join (macosDir st) execFile))
         \<longrightarrow> os_ReadFile st (filepath_Join execPath execFile) = Inr bytes)"
proof -
  let ?dst = "filepath_Join (macosDir st) execFile"
  let ?src = "filepath_Join execPath execFile"
  from assms obtain st1 where c: "Copy st ?src ?dst = (None, st1)"
    and ch: "os_Chmod st1 ?dst perm_0755 = (None, st')"
    by (auto simp: copyCompExec_def Let_def split: prod.splits option.splits)
  from Copy_None[OF c] obtain out inp bytes m u g where
    d: "?dst \<noteq> []" and s: "?src \<noteq> []"
    and fo: "follow maxLinks (files st) (path_of ?dst) = Some out" and h: "out \<noteq> []" "out \<noteq> [''/'']"
    and nl: "\<forall>t. lookup (files st) out \<noteq> Some (Symlink t)"
    and fi: "follow maxLinks (files st) (path_of ?src) = Some inp"
    and a: "inp \<noteq> out \<longrightarrow> (\<exists>m' u' g'. lookup (files st) inp = Some (File bytes m' u' g'))"
    and b: "inp = out \<longrightarrow> bytes = []"
    and st1: "st1 = st\<lparr>files := put out (File bytes m u g) (put out (File [] m u g) (files st))\<rparr>"
    by blast
  let ?f1 = "put out (File bytes m u g) (put out (File [] m u g) (files st))"
  have l0: "\<forall>t. lookup (put out (File [] m u g) (files st)) out \<noteq> Some (Symlink t)"
    using h by (simp add: lookup_put)
  have fol1: "\<And>p. follow maxLinks ?f1 p = follow maxLinks (files st) p"
    using nl l0 by (simp add: follow_put)
  have l1: "lookup ?f1 out = Some (File bytes m u g)" using h by (simp add: lookup_put)
  have l1o: "\<And>q. q \<noteq> out \<Longrightarrow> lookup ?f1 q = lookup (files st) q" by (simp add: lookup_put)
  from ch have st': "st' = st1\<lparr>files := put out (File bytes perm_0755 u g) ?f1\<rparr>"
    using d fo l1 by (auto simp: os_Chmod_def st1 fol1 perm_0755_bits split: if_splits)
  let ?f2 = "put out (File bytes perm_0755 u g) ?f1"
  have f2: "files st' = ?f2" by (simp add: st' st1)
  have fol2: "\<And>p. follow maxLinks ?f2 p = follow maxLinks (files st) p"
    using l1 by (simp add: follow_put fol1)
  have l2: "lookup ?f2 out = Some (File bytes perm_0755 u g)" using h by (simp add: lookup_put)
  have l2o: "\<And>q. q \<noteq> out \<Longrightarrow> lookup ?f2 q = lookup (files st) q" by (simp add: lookup_put)
  have 1: "os_ReadFile st' ?dst = Inr bytes"
    using d fo l2 by (simp add: os_ReadFile_iff f2 fol2)
  have 2: "os_ReadFile st' ?src = Inr bytes"
  proof (cases "inp = out")
    case True
    then show ?thesis using s fi l2 by (simp add: os_ReadFile_iff f2 fol2)
  next
    case False
    with a obtain m' u' g' where "lookup (files st) inp = Some (File bytes m' u' g')" by blast
    with False have "lookup ?f2 inp = Some (File bytes m' u' g')" by (simp add: l2o)
    then show ?thesis using s fi unfolding os_ReadFile_iff f2 fol2 by blast
  qed
  have 3: "os_Stat st' ?dst = Inr (File bytes perm_0755 u g)"
    using d fo l2 by (simp add: os_Stat_def f2 fol2)
  have 4: "follow maxLinks (files st) (path_of ?src) \<noteq> follow maxLinks (files st) (path_of ?dst)
         \<longrightarrow> os_ReadFile st ?src = Inr bytes"
    using s fi fo a unfolding os_ReadFile_iff by auto
  from 1 2 3 4 show ?thesis by blast
qed

text \<open>
  Claim C5. \<^verbatim>\<open>CopyExecutable\<close> runs the JAR strategy exactly when the configured file name
  ends in the three characters \<open>''jar''\<close>, compared as they are (\<open>''app.JAR''\<close> does not
  end so), and the binary strategy otherwise, on the local directory of the executable
  when that is set and on its configured directory when not. When the binary strategy
  succeeds, the file in the executables directory reads as the source reads, byte for
  byte, and has the permission bits 0755; its bytes are the ones the source had before
  the call, unless source and destination are the same file.
\<close>

theorem payload_strategy:
  "CopyExecutable depth st =
     (if strings_HasSuffix (GetExecutableName st) ''jar''
      then map_option (\<lambda>(err, s). (None, s))
             (copyJarExec depth st
               (if GetLocalExecDirectory st \<noteq> [] then GetLocalExecDirectory st else GetExecutableDirectory st)
               (GetExecutableName st))
      else Some (None, snd (copyCompExec st
               (if GetLocalExecDirectory st \<noteq> [] then GetLocalExecDirectory st else GetExecutableDirectory st)
               (GetExecutableName st))))
   \<and> (strings_HasSuffix name ''jar'' \<longleftrightarrow> (\<exists>stem. name = stem @ ''jar''))
   \<and> \<not> strings_HasSuffix ''app.JAR'' ''jar''
   \<and> (copyCompExec st execPath execFile = (None, st') \<longrightarrow>
        (\<exists>bytes u g.
            os_ReadFile st' (filepath_Join (macosDir st) execFile) = Inr bytes
          \<and> os_ReadFile st' (filepath_Join execPath execFile) = Inr bytes
          \<and> os_Stat st' (filepath_Join (macosDir st) execFile) = Inr (File bytes perm_0755 u g)
          \<and> (follow maxLinks (files st) (path_of (filepath_Join execPath execFile))
                \<noteq> follow maxLinks (files st) (path_of (filepath_Join (macosDir st) execFile))
              \<longrightarrow> os_ReadFile st (filepath_Join execPath execFile) = Inr bytes)))"
proof -
  have 1: "CopyExecutable depth st =
     (if strings_HasSuffix (GetExecutableName st) ''jar''
      then map_option (\<lambda>(err, s). (None, s))
             (copyJarExec depth st
               (if GetLocalExecDirectory st \<noteq> [] then GetLocalExecDirectory st else GetExecutableDirectory st)
               (GetExecutableName st))
      else Some (None, snd (copyCompExec st
               (if GetLocalExecDirectory st \<noteq> [] then GetLocalExecDirectory st else GetExecutableDirectory st)
               (GetExecutableName st))))"
    by (auto simp: CopyExecutable_def Let_def split: option.splits prod.splits)
  have 2: "strings_HasSuffix name ''jar'' \<longleftrightarrow> (\<exists>stem. name = stem @ ''jar'')"
    by (simp add: strings_HasSuffix_def suffix_def)
  have 3: "\<not> strings_HasSuffix ''app.JAR'' ''jar''"
    by (simp add: strings_HasSuffix_def suffix_def append_eq_Cons_conv)
  from 1 2 3 copyCompExec_None show ?thesis by blast
qed

text \<open>The payload \<^verbatim>\<open>dist/tool\<close> is copied into the bundle with mode 0755.\<close>

theorem payload_strategy_witness:
  "\<not> strings_HasSuffix (GetExecutableName (builtState toolCfg toolFiles)) ''jar''
   \<and> CopyExecutable 1 (builtState toolCfg toolFiles)
       = Some (None, snd (copyCompExec (builtState toolCfg toolFiles) ''dist'' ''tool''))
   \<and> copyCompExec (builtState toolCfg toolFiles) ''dist'' ''tool''
       = (None, snd (copyCompExec (builtState toolCfg toolFiles) ''dist'' ''tool''))
   \<and> (\<exists>u g. os_Stat (snd (copyCompExec (builtState toolCfg toolFiles) ''dist'' ''tool''))
                ''Sample.app/Contents/MacOS/tool'' = Inr (File ''ELF'' perm_0755 u g))
   \<and> os_ReadFile (builtState toolCfg toolFiles) ''dist/tool'' = Inr ''ELF''"
proof -
  let ?S = "builtState toolCfg toolFiles"
  let ?S' = "snd (copyCompExec ?S ''dist'' ''tool'')"
  have n: "\<not> strings_HasSuffix (GetExecutableName ?S) ''jar''" by code_simp
  have x: "(if GetLocalExecDirectory ?S \<noteq> [] then GetLocalExecDirectory ?S else GetExecutableDirectory ?S) = ''dist''"
    by code_simp
  have g: "GetExecutableName ?S = ''tool''" by code_simp
  have h: "copyCompExec ?S ''dist'' ''tool'' = (None, ?S')" by code_simp
  have d: "filepath_Join (macosDir ?S) ''tool'' = ''Sample.app/Contents/MacOS/tool''" by code_simp
  have r: "os_ReadFile ?S' ''Sample.app/Contents/MacOS/tool'' = Inr ''ELF''" by code_simp
  have o: "os_ReadFile ?S ''dist/tool'' = Inr ''ELF''" by code_simp
  note t = payload_strategy[of 1 ?S "''tool''" "''dist''" "''tool''" ?S']
  from t n x g have 1: "CopyExecutable 1 ?S = Some (None, ?S')" by simp
  from t h obtain bytes u g where
    "os_ReadFile ?S' (filepath_Join (macosDir ?S) ''tool'') = Inr bytes"
    and s: "os_Stat ?S' (filepath_Join (macosDir ?S) ''tool'') = Inr (File bytes perm_0755 u g)"
    by blast
  with r d have "bytes = ''ELF''" by simp
  with s d have 2: "\<exists>u g. os_Stat ?S' ''Sample.app/Contents/MacOS/tool'' = Inr (File ''ELF'' perm_0755 u g)"
    by auto
  from n 1 h 2 o show ?thesis by blast
qed

end
